theory Spec2Isabelle
  imports Complex_Main
begin

section \<open>Python values used by the compliance engine\<close>

text \<open>
  Python \<^verbatim>\<open>str\<close> values are character lists. Python \<^verbatim>\<open>int\<close> is \<^typ>\<open>int\<close>. Python
  \<^verbatim>\<open>float\<close> values (amounts, confidences, durations) are idealised as exact rationals:
  every finite float is a rational, comparisons between floats and integer literals are
  exact, and the arithmetic of the dashboard is carried out without binary rounding error.
  The readings of the wall clock (\<^verbatim>\<open>datetime.now()\<close>) are explicit arguments holding the
  rendered text, so that each model is a function of everything the code reads.
\<close>

subsection \<open>\<^verbatim>\<open>dict.get(key, default)\<close> on an optional field\<close>

definition dict_get :: "'a option \<Rightarrow> 'a \<Rightarrow> 'a" where
  "dict_get field dflt = (case field of None \<Rightarrow> dflt | Some v \<Rightarrow> v)"

subsection \<open>\<^verbatim>\<open>str.lower()\<close> and the substring test \<^verbatim>\<open>k in s\<close>\<close>

text \<open>
  \<^verbatim>\<open>str.lower()\<close> on ASCII text: the twenty-six capital letters are mapped to their small
  counterparts, every other character is kept.
\<close>

definition lower_char :: "char \<Rightarrow> char" where
  "lower_char c =
     (case map_of (zip ''ABCDEFGHIJKLMNOPQRSTUVWXYZ'' ''abcdefghijklmnopqrstuvwxyz'') c of
        None \<Rightarrow> c
      | Some d \<Rightarrow> d)"

definition lower :: "string \<Rightarrow> string" where
  "lower s = map lower_char s"

fun startswith :: "string \<Rightarrow> string \<Rightarrow> bool" where
  "startswith s [] = True"
| "startswith [] (k # ks) = False"
| "startswith (c # cs) (k # ks) = (c = k \<and> startswith cs ks)"

text \<open>\<^verbatim>\<open>k in s\<close>: the keyword occurs at some position of the text.\<close>

fun str_contains :: "string \<Rightarrow> string \<Rightarrow> bool" where
  "str_contains k [] = (k = [])"
| "str_contains k (c # cs) = (startswith (c # cs) k \<or> str_contains k cs)"

section \<open>Risk scoring (\<^verbatim>\<open>risk_scoring.py\<close>)\<close>

definition HIGH_RISK_COUNTRIES :: "string list" where
  "HIGH_RISK_COUNTRIES =
     [''Afghanistan'', ''Iran'', ''North Korea'', ''Syria'', ''Yemen'',
      ''Myanmar'', ''Cuba'', ''Sudan'', ''Venezuela'']"

definition HIGH_RISK_KEYWORDS :: "string list" where
  "HIGH_RISK_KEYWORDS =
     [''sanction'', ''terrorist'', ''terrorism'', ''fraud'', ''laundering'',
      ''money laundering'', ''shell company'', ''offshore'', ''pep'',
      ''politically exposed'', ''blacklist'', ''watchlist'']"

definition MEDIUM_RISK_KEYWORDS :: "string list" where
  "MEDIUM_RISK_KEYWORDS =
     [''cash'', ''cryptocurrency'', ''bitcoin'', ''anonymous'', ''bearer'',
      ''structuring'', ''smurfing'', ''layering'', ''placement'']"

text \<open>
  The transaction dictionary: every key may be absent (\<open>None\<close>), as the code reads each
  one with \<^verbatim>\<open>.get\<close>.
\<close>

record transaction =
  amount :: "rat option"
  currency :: "string option"
  country :: "string option"
  count_24h :: "int option"
  customer_type :: "string option"
  is_cash :: "bool option"

text \<open>
  The flag messages. Each constructor stands for one f-string of the source and carries
  the value that the f-string formats:
  \<^item> \<open>HighValue a\<close>: \<^verbatim>\<open>f"High-value transaction: ${amount:,.2f}"\<close>
  \<^item> \<open>MediumValue a\<close>: \<^verbatim>\<open>f"Medium-value transaction: ${amount:,.2f}"\<close>
  \<^item> \<open>VeryHighVelocity n\<close>: \<^verbatim>\<open>f"Very high velocity: {count_24h} transactions/24h"\<close>
  \<^item> \<open>HighVelocity n\<close>: \<^verbatim>\<open>f"High velocity: {count_24h} transactions/24h"\<close>
  \<^item> \<open>HighRiskJurisdiction c\<close>: \<^verbatim>\<open>f"High-risk jurisdiction: {country}"\<close>
  \<^item> \<open>CashTransaction\<close>: \<^verbatim>\<open>"Cash transaction"\<close>
  \<^item> \<open>SmallCorporate\<close>: \<^verbatim>\<open>"Unusual small corporate transaction"\<close>
  \<^item> \<open>RiskKeywords ks\<close>: \<^verbatim>\<open>f"Risk keywords detected: {', '.join(keywords_found)}"\<close>
\<close>

datatype flag =
    HighValue rat
  | MediumValue rat
  | VeryHighVelocity int
  | HighVelocity int
  | HighRiskJurisdiction string
  | CashTransaction
  | SmallCorporate
  | RiskKeywords "string list"

record risk_result =
  risk_score :: int
  risk_level :: string
  flags :: "flag list"

record transaction_risk = risk_result +
  recommended_action :: string
  timestamp :: string

record query_risk = risk_result +
  keywords_found :: "string list"
  requires_alert :: bool

text \<open>
  \<^verbatim>\<open>calculate_transaction_risk(transaction_data)\<close>. The pair \<open>(score, fl)\<close> is the pair
  of the local variables \<^verbatim>\<open>risk_score\<close> and \<^verbatim>\<open>flags\<close>; each of the five rule blocks of
  the source (named after its comment) updates it, in the order of the source.
\<close>

type_synonym risk_acc = "int \<times> flag list"

definition amount_based_risk :: "rat \<Rightarrow> risk_acc \<Rightarrow> risk_acc" where
  "amount_based_risk amt = (\<lambda>(score, fl).
     if amt \<ge> 50000 then (score + 35, fl @ [HighValue amt])
     else if amt \<ge> 10000 then (score + 20, fl @ [MediumValue amt])
     else (score, fl))"

definition velocity_risk :: "int \<Rightarrow> risk_acc \<Rightarrow> risk_acc" where
  "velocity_risk cnt = (\<lambda>(score, fl).
     if cnt > 20 then (score + 30, fl @ [VeryHighVelocity cnt])
     else if cnt > 10 then (score + 15, fl @ [HighVelocity cnt])
     else (score, fl))"

definition geographic_risk :: "string \<Rightarrow> risk_acc \<Rightarrow> risk_acc" where
  "geographic_risk ctry = (\<lambda>(score, fl).
     if ctry \<in> set HIGH_RISK_COUNTRIES then (score + 25, fl @ [HighRiskJurisdiction ctry])
     else (score, fl))"

definition cash_transaction_risk :: "bool \<Rightarrow> risk_acc \<Rightarrow> risk_acc" where
  "cash_transaction_risk cash = (\<lambda>(score, fl).
     if cash then (score + 15, fl @ [CashTransaction]) else (score, fl))"

definition customer_type_risk :: "string option \<Rightarrow> rat \<Rightarrow> risk_acc \<Rightarrow> risk_acc" where
  "customer_type_risk ctype amt = (\<lambda>(score, fl).
     if ctype = Some ''corporate''
     then (if amt < 1000 then (score + 10, fl @ [SmallCorporate]) else (score, fl))
     else (score, fl))"

text \<open>The level and the recommended action of a capped transaction score.\<close>

definition transaction_risk_level :: "int \<Rightarrow> string \<times> string" where
  "transaction_risk_level score =
     (if score \<ge> 70 then (''HIGH'', ''Enhanced Due Diligence Required'')
      else if score \<ge> 40 then (''MEDIUM'', ''Standard Due Diligence Required'')
      else (''LOW'', ''Normal Processing''))"

text \<open>
  The second argument is the text of \<^verbatim>\<open>datetime.now().isoformat()\<close> at the moment of the
  call, which the code stores in the result.
\<close>

definition calculate_transaction_risk :: "transaction \<Rightarrow> string \<Rightarrow> transaction_risk" where
  "calculate_transaction_risk transaction_data now_iso =
     (let acc = (0, []);
          amt = dict_get (amount transaction_data) 0;
          acc = amount_based_risk amt acc;
          cnt = dict_get (count_24h transaction_data) 0;
          acc = velocity_risk cnt acc;
          ctry = dict_get (country transaction_data) [];
          acc = geographic_risk ctry acc;
          acc = cash_transaction_risk (dict_get (is_cash transaction_data) False) acc;
          acc = customer_type_risk (customer_type transaction_data) amt acc;
          score = min (fst acc) 100;
          (level, action) = transaction_risk_level score
      in \<lparr> risk_score = score, risk_level = level, flags = snd acc,
           recommended_action = action, timestamp = now_iso \<rparr>)"

text \<open>
  \<^verbatim>\<open>analyze_query_risk(query)\<close>. The two \<^verbatim>\<open>for\<close> loops over the keyword tables are
  recursion over the table, carrying \<^verbatim>\<open>risk_score\<close> and \<^verbatim>\<open>keywords_found\<close>.
\<close>

fun scan_keywords :: "int \<Rightarrow> string list \<Rightarrow> string \<Rightarrow> int \<times> string list \<Rightarrow> int \<times> string list" where
  "scan_keywords w [] query_lower (score, found) = (score, found)"
| "scan_keywords w (keyword # rest) query_lower (score, found) =
     (if str_contains keyword query_lower
      then scan_keywords w rest query_lower (score + w, found @ [keyword])
      else scan_keywords w rest query_lower (score, found))"

text \<open>The level and the alert flag of a capped query score.\<close>

definition query_risk_level :: "int \<Rightarrow> string \<times> bool" where
  "query_risk_level score =
     (if score \<ge> 50 then (''HIGH'', True)
      else if score \<ge> 25 then (''MEDIUM'', False)
      else (''LOW'', False))"

definition analyze_query_risk :: "string \<Rightarrow> query_risk" where
  "analyze_query_risk query =
     (let query_lower = lower query;
          (score, found) = (0::int, []::string list);
          (score, found) = scan_keywords 15 HIGH_RISK_KEYWORDS query_lower (score, found);
          (score, found) = scan_keywords 8 MEDIUM_RISK_KEYWORDS query_lower (score, found);
          fl = (if found \<noteq> [] then [RiskKeywords found] else []);
          score = min score 100;
          (level, alert) = query_risk_level score
      in \<lparr> risk_score = score, risk_level = level, flags = fl,
           keywords_found = found, requires_alert = alert \<rparr>)"

subsection \<open>The rule table in the words of the specification\<close>

text \<open>
  The contribution of each rule to the score and to the flag list, as the specification
  lists them. They are compared with the rule blocks of the code below.
\<close>

definition amount_points :: "rat \<Rightarrow> int" where
  "amount_points a = (if a \<ge> 50000 then 35 else if a \<ge> 10000 then 20 else 0)"

definition amount_flags :: "rat \<Rightarrow> flag list" where
  "amount_flags a =
     (if a \<ge> 50000 then [HighValue a] else if a \<ge> 10000 then [MediumValue a] else [])"

definition velocity_points :: "int \<Rightarrow> int" where
  "velocity_points n = (if n > 20 then 30 else if n > 10 then 15 else 0)"

definition velocity_flags :: "int \<Rightarrow> flag list" where
  "velocity_flags n =
     (if n > 20 then [VeryHighVelocity n] else if n > 10 then [HighVelocity n] else [])"

definition country_points :: "string \<Rightarrow> int" where
  "country_points c = (if c \<in> set HIGH_RISK_COUNTRIES then 25 else 0)"

definition country_flags :: "string \<Rightarrow> flag list" where
  "country_flags c = (if c \<in> set HIGH_RISK_COUNTRIES then [HighRiskJurisdiction c] else [])"

definition cash_points :: "bool \<Rightarrow> int" where
  "cash_points b = (if b then 15 else 0)"

definition cash_flags :: "bool \<Rightarrow> flag list" where
  "cash_flags b = (if b then [CashTransaction] else [])"

definition corporate_points :: "string option \<Rightarrow> rat \<Rightarrow> int" where
  "corporate_points ct a = (if ct = Some ''corporate'' \<and> a < 1000 then 10 else 0)"

definition corporate_flags :: "string option \<Rightarrow> rat \<Rightarrow> flag list" where
  "corporate_flags ct a = (if ct = Some ''corporate'' \<and> a < 1000 then [SmallCorporate] else [])"

text \<open>The transaction of the scenario in the specification and of the example in the source.\<close>

definition test_transaction :: transaction where
  "test_transaction =
     \<lparr> amount = Some 55000, currency = None, country = Some ''Iran'', count_24h = Some 15,
       customer_type = Some ''individual'', is_cash = Some True \<rparr>"

definition empty_transaction :: transaction where
  "empty_transaction =
     \<lparr> amount = None, currency = None, country = None, count_24h = None,
       customer_type = None, is_cash = None \<rparr>"

definition test_query :: string where
  "test_query = ''What are the requirements for terrorist financing detection?''"

section \<open>Python exceptions, indexing, slicing and rounding\<close>

datatype py_error = IndexError | AttributeError | StatisticsError

text \<open>\<^verbatim>\<open>xs[i]\<close>: a negative index counts from the end, an index out of range raises.\<close>

definition py_index :: "'a list \<Rightarrow> int \<Rightarrow> py_error + 'a" where
  "py_index xs i =
     (if 0 \<le> i \<and> i < int (length xs) then Inr (xs ! nat i)
      else if i < 0 \<and> - int (length xs) \<le> i then Inr (xs ! nat (int (length xs) + i))
      else Inl IndexError)"

text \<open>\<^verbatim>\<open>int(x)\<close> on a number: truncation towards zero.\<close>

definition py_int :: "rat \<Rightarrow> int" where
  "py_int x = (if x \<ge> 0 then \<lfloor>x\<rfloor> else \<lceil>x\<rceil>)"

text \<open>
  \<^verbatim>\<open>round(x, ndigits)\<close>: the nearest multiple of \<open>10\<^sup>-\<^sup>n\<close>, a tie going to the even
  neighbour.
\<close>

definition round_half_even :: "rat \<Rightarrow> int" where
  "round_half_even x =
     (let f = \<lfloor>x\<rfloor>; d = x - of_int f
      in if d < 1 / 2 then f else if d > 1 / 2 then f + 1 else if even f then f else f + 1)"

definition py_round :: "rat \<Rightarrow> nat \<Rightarrow> rat" where
  "py_round x ndigits = of_int (round_half_even (x * 10 ^ ndigits)) / 10 ^ ndigits"

section \<open>Performance monitor (\<^verbatim>\<open>performance_monitor.py\<close>)\<close>

text \<open>
  The monitor object: the four bounded queues (\<^verbatim>\<open>deque(maxlen=history_size)\<close>, oldest
  sample first) and the counters. Durations are seconds.
\<close>

record performance_monitor =
  history_size :: nat
  query_times :: "rat list"
  embedding_times :: "rat list"
  search_times :: "rat list"
  llm_times :: "rat list"
  total_queries :: int
  cache_hits :: int
  cache_misses :: int

definition init_monitor :: "nat \<Rightarrow> performance_monitor" where
  "init_monitor hsize =
     \<lparr> history_size = hsize, query_times = [], embedding_times = [], search_times = [],
       llm_times = [], total_queries = 0, cache_hits = 0, cache_misses = 0 \<rparr>"

text \<open>\<^verbatim>\<open>deque.append\<close> on a queue of bounded length: the oldest samples are dropped.\<close>

definition deque_append :: "nat \<Rightarrow> 'a list \<Rightarrow> 'a \<Rightarrow> 'a list" where
  "deque_append maxlen d x = (let d' = d @ [x] in drop (length d' - maxlen) d')"

definition record_query_time :: "performance_monitor \<Rightarrow> rat \<Rightarrow> performance_monitor" where
  "record_query_time self duration =
     self\<lparr> query_times := deque_append (history_size self) (query_times self) duration,
           total_queries := total_queries self + 1 \<rparr>"

text \<open>\<^verbatim>\<open>_percentile(data, percentile)\<close>.\<close>

definition percentile :: "rat list \<Rightarrow> int \<Rightarrow> py_error + rat" where
  "percentile data pct =
     (if data = [] then Inr 0
      else let sorted_data = sort data;
               index = py_int ((of_int pct / 100) * of_nat (length sorted_data))
           in py_index sorted_data (min index (int (length sorted_data) - 1)))"

text \<open>\<^verbatim>\<open>statistics.mean\<close> and \<^verbatim>\<open>statistics.median\<close>; both raise on no data.\<close>

definition statistics_mean :: "rat list \<Rightarrow> py_error + rat" where
  "statistics_mean data =
     (if data = [] then Inl StatisticsError else Inr (sum_list data / of_nat (length data)))"

definition statistics_median :: "rat list \<Rightarrow> py_error + rat" where
  "statistics_median data =
     (let s = sort data; n = length s
      in if n = 0 then Inl StatisticsError
         else if n mod 2 = 1 then Inr (s ! (n div 2))
         else Inr ((s ! (n div 2 - 1) + s ! (n div 2)) / 2))"

record time_stats =
  avg :: rat
  median :: rat
  min_v :: rat
  max_v :: rat
  p95 :: rat
  p99 :: rat

text \<open>
  The \<^verbatim>\<open>"query_time"\<close> block of \<^verbatim>\<open>get_metrics\<close>: absent (\<open>None\<close>) when the queue is
  empty. An exception of one of the six computations leaves the function.
\<close>

definition query_time_metrics :: "performance_monitor \<Rightarrow> py_error + time_stats option" where
  "query_time_metrics self =
     (let qt = query_times self
      in if qt = [] then Inr None
         else
          (case statistics_mean qt of Inl e \<Rightarrow> Inl e | Inr mean_v \<Rightarrow>
          (case statistics_median qt of Inl e \<Rightarrow> Inl e | Inr median_v \<Rightarrow>
          (case percentile qt 95 of Inl e \<Rightarrow> Inl e | Inr v95 \<Rightarrow>
          (case percentile qt 99 of Inl e \<Rightarrow> Inl e | Inr v99 \<Rightarrow>
             Inr (Some \<lparr> avg = py_round mean_v 3, median = py_round median_v 3,
                          min_v = py_round (fold min (tl qt) (hd qt)) 3,
                          max_v = py_round (fold max (tl qt) (hd qt)) 3,
                          p95 = py_round v95 3, p99 = py_round v99 3 \<rparr>))))))"

text \<open>The window of the samples 1, 2, ..., 100 seconds.\<close>

definition window_1_to_100 :: "rat list" where
  "window_1_to_100 = map of_int [1..100]"

section \<open>Audit logger (\<^verbatim>\<open>audit_logger.py\<close>)\<close>

subsection \<open>JSON values, files and the libraries the logger calls\<close>

text \<open>
  A log entry is a Python dictionary of JSON-serialisable values; a dictionary is the
  list of its items in insertion order.
\<close>

datatype json =
    JNull
  | JBool bool
  | JInt int
  | JFloat rat
  | JStr string
  | JArr "json list"
  | JObj "(string \<times> json) list"

text \<open>
  The file system: the text of each existing file, by path. Directories are not
  modelled, and a write never fails.
\<close>

type_synonym files = "string \<Rightarrow> string option"

definition file_text :: "files \<Rightarrow> string \<Rightarrow> string" where
  "file_text fs path = (case fs path of None \<Rightarrow> [] | Some text \<Rightarrow> text)"

definition newline :: char where
  "newline = CHR 0x0A"

text \<open>
  The functions of the standard library that the logger calls are arguments of the
  model: \<open>dumps\<close> is \<^verbatim>\<open>json.dumps\<close>, \<open>loads\<close> is \<^verbatim>\<open>json.loads\<close> with \<open>None\<close> for a
  \<^verbatim>\<open>JSONDecodeError\<close>, \<open>md5_hex\<close> is \<^verbatim>\<open>hashlib.md5(text.encode()).hexdigest()\<close>.
\<close>

type_synonym json_dumps = "json \<Rightarrow> string"
type_synonym json_loads = "string \<Rightarrow> json option"

text \<open>\<^verbatim>\<open>os.path.join(a, b)\<close> for a relative file name \<open>b\<close>.\<close>

definition os_path_join :: "string \<Rightarrow> string \<Rightarrow> string" where
  "os_path_join a b = (if a = [] \<or> last a = CHR ''/'' then a @ b else a @ ''/'' @ b)"

text \<open>\<^verbatim>\<open>str.strip()\<close>: the ASCII white space at both ends is removed.\<close>

definition is_space :: "char \<Rightarrow> bool" where
  "is_space c \<longleftrightarrow>
     c \<in> set [CHR 0x09, CHR 0x0A, CHR 0x0B, CHR 0x0C, CHR 0x0D,
               CHR 0x1C, CHR 0x1D, CHR 0x1E, CHR 0x1F, CHR 0x20]"

definition strip :: "string \<Rightarrow> string" where
  "strip s = rev (dropWhile is_space (rev (dropWhile is_space s)))"

text \<open>
  Iterating over a text file: the lines in order, each with its final newline; a last
  line without newline is a line too.
\<close>

fun file_lines_from :: "string \<Rightarrow> string \<Rightarrow> string list" where
  "file_lines_from cur [] = (if cur = [] then [] else [cur])"
| "file_lines_from cur (c # cs) =
     (if c = newline then (cur @ [c]) # file_lines_from [] cs
      else file_lines_from (cur @ [c]) cs)"

definition file_lines :: "string \<Rightarrow> string list" where
  "file_lines text = file_lines_from [] text"

text \<open>\<^verbatim>\<open>entries[-limit:]\<close>, with the start of the slice clamped as Python does.\<close>

definition py_slice_last :: "'a list \<Rightarrow> int \<Rightarrow> 'a list" where
  "py_slice_last entries limit =
     (let n = int (length entries);
          start = - limit;
          start = (if start < 0 then max (start + n) 0 else min start n)
      in drop (nat start) entries)"

text \<open>\<^verbatim>\<open>entry.get(key)\<close>: only a dictionary has the method.\<close>

definition json_get :: "json \<Rightarrow> string \<Rightarrow> py_error + json option" where
  "json_get entry key = (case entry of JObj items \<Rightarrow> Inr (map_of items key) | _ \<Rightarrow> Inl AttributeError)"

subsection \<open>The clock reading and its text\<close>

text \<open>
  A value of \<^verbatim>\<open>datetime.now()\<close> and its text \<^verbatim>\<open>str(...)\<close>: the date, a blank, the time of
  day, and the microseconds after a dot unless they are zero, every number in decimal
  digits of fixed width.
\<close>

record datetime =
  year :: nat
  month :: nat
  day :: nat
  hour :: nat
  minute :: nat
  second :: nat
  microsecond :: nat

definition days_in_month :: "nat \<Rightarrow> nat \<Rightarrow> nat" where
  "days_in_month y m =
     (if m = 2 then (if y mod 4 = 0 \<and> (y mod 100 \<noteq> 0 \<or> y mod 400 = 0) then 29 else 28)
      else if m \<in> set [4, 6, 9, 11] then 30 else 31)"

definition valid_datetime :: "datetime \<Rightarrow> bool" where
  "valid_datetime t \<longleftrightarrow>
     1 \<le> year t \<and> year t \<le> 9999 \<and> 1 \<le> month t \<and> month t \<le> 12
     \<and> 1 \<le> day t \<and> day t \<le> days_in_month (year t) (month t)
     \<and> hour t < 24 \<and> minute t < 60 \<and> second t < 60 \<and> microsecond t < 1000000"

fun zero_padded :: "nat \<Rightarrow> nat \<Rightarrow> string" where
  "zero_padded 0 n = []"
| "zero_padded (Suc width) n = zero_padded width (n div 10) @ [''0123456789'' ! (n mod 10)]"

definition str_datetime :: "datetime \<Rightarrow> string" where
  "str_datetime t =
     zero_padded 4 (year t) @ ''-'' @ zero_padded 2 (month t) @ ''-'' @ zero_padded 2 (day t)
     @ '' '' @ zero_padded 2 (hour t) @ '':'' @ zero_padded 2 (minute t) @ '':''
     @ zero_padded 2 (second t)
     @ (if microsecond t = 0 then [] else ''.'' @ zero_padded 6 (microsecond t))"

text \<open>The characters of a hexadecimal digest.\<close>

definition hex_digits :: "char set" where
  "hex_digits = set ''0123456789abcdef''"

text \<open>The first instant of the first day of a year, plus a time of day.\<close>

definition new_year_time :: "nat \<times> nat \<times> nat \<times> nat \<times> nat \<Rightarrow> datetime" where
  "new_year_time = (\<lambda>(y, h, mi, s, us).
     \<lparr> year = y, month = 1, day = 1, hour = h, minute = mi, second = s, microsecond = us \<rparr>)"

subsection \<open>The logger\<close>

record audit_logger =
  log_dir :: string
  query_log_file :: string
  access_log_file :: string
  alert_log_file :: string
  document_log_file :: string

definition AuditLogger :: "string \<Rightarrow> audit_logger" where
  "AuditLogger dir =
     \<lparr> log_dir = dir,
       query_log_file = os_path_join dir ''query_log.jsonl'',
       access_log_file = os_path_join dir ''access_log.jsonl'',
       alert_log_file = os_path_join dir ''alert_log.jsonl'',
       document_log_file = os_path_join dir ''document_log.jsonl'' \<rparr>"

text \<open>
  \<^verbatim>\<open>_generate_id(*args)\<close>; the arguments are strings at both call sites. \<open>now_str\<close> is
  the text of \<^verbatim>\<open>str(datetime.now())\<close> at the moment of the call.
\<close>

definition generate_id :: "(string \<Rightarrow> string) \<Rightarrow> string list \<Rightarrow> string \<Rightarrow> string" where
  "generate_id md5_hex args now_str =
     (let content = concat args @ now_str in take 12 (md5_hex content))"

text \<open>\<^verbatim>\<open>_write_log(log_file, entry)\<close>: the file is opened for appending.\<close>

definition write_log :: "json_dumps \<Rightarrow> files \<Rightarrow> string \<Rightarrow> json \<Rightarrow> files" where
  "write_log dumps fs log_file entry =
     fs(log_file \<mapsto> file_text fs log_file @ dumps entry @ [newline])"

text \<open>
  The loop of \<^verbatim>\<open>_read_log\<close> over the lines, with the list \<^verbatim>\<open>entries\<close> built so far. A
  line that does not parse is skipped; with a user filter, \<^verbatim>\<open>entry.get\<close> on a parsed
  value that is no dictionary raises, and the exception is not caught.
\<close>

fun read_entries ::
  "json_loads \<Rightarrow> string option \<Rightarrow> json list \<Rightarrow> string list \<Rightarrow> py_error + json list" where
  "read_entries loads user_id entries [] = Inr entries"
| "read_entries loads user_id entries (line # rest) =
     (case loads (strip line) of
        None \<Rightarrow> read_entries loads user_id entries rest
      | Some entry \<Rightarrow>
          (case user_id of
             None \<Rightarrow> read_entries loads user_id (entries @ [entry]) rest
           | Some u \<Rightarrow>
               (case json_get entry ''user_id'' of
                  Inl e \<Rightarrow> Inl e
                | Inr v \<Rightarrow>
                    if v = Some (JStr u)
                    then read_entries loads user_id (entries @ [entry]) rest
                    else read_entries loads user_id entries rest)))"

text \<open>\<^verbatim>\<open>_read_log(log_file, user_id=None, limit=100)\<close>.\<close>

definition read_log ::
  "json_loads \<Rightarrow> files \<Rightarrow> string \<Rightarrow> string option \<Rightarrow> int \<Rightarrow> py_error + json list" where
  "read_log loads fs log_file user_id limit =
     (case fs log_file of
        None \<Rightarrow> Inr []
      | Some text \<Rightarrow>
          (case read_entries loads user_id [] (file_lines text) of
             Inl e \<Rightarrow> Inl e
           | Inr entries \<Rightarrow> Inr (py_slice_last entries limit)))"

definition get_query_history ::
  "json_loads \<Rightarrow> files \<Rightarrow> audit_logger \<Rightarrow> string option \<Rightarrow> int \<Rightarrow> py_error + json list" where
  "get_query_history loads fs self user_id limit =
     read_log loads fs (query_log_file self) user_id limit"

text \<open>
  \<^verbatim>\<open>log_query\<close>. The dictionary \<^verbatim>\<open>log_entry\<close> is built from the arguments, the identifier
  and \<open>now_iso\<close>, the text of \<^verbatim>\<open>datetime.now().isoformat()\<close>. A source is a dictionary; the
  optional metadata is \<open>None\<close> or a dictionary.
\<close>

definition query_log_entry ::
  "string \<Rightarrow> string \<Rightarrow> string \<Rightarrow> string \<Rightarrow> string \<Rightarrow> (string \<times> json) list list \<Rightarrow>
   rat \<Rightarrow> int \<Rightarrow> (string \<times> json) list option \<Rightarrow> json" where
  "query_log_entry query_id now_iso user_id query answer sources confidence risk metadata =
     JObj
      [(''query_id'', JStr query_id),
       (''timestamp'', JStr now_iso),
       (''user_id'', JStr user_id),
       (''query'', JStr query),
       (''answer_preview'',
          JStr (if length answer > 200 then take 200 answer @ ''...'' else answer)),
       (''answer_length'', JInt (int (length answer))),
       (''sources_used'', JArr (map (\<lambda>s. dict_get (map_of s ''filename'') (JStr ''Unknown'')) sources)),
       (''source_count'', JInt (int (length sources))),
       (''confidence_score'', JFloat confidence),
       (''risk_score'', JInt risk),
       (''metadata'', JObj (case metadata of None \<Rightarrow> [] | Some d \<Rightarrow> d))]"

definition log_query ::
  "(string \<Rightarrow> string) \<Rightarrow> json_dumps \<Rightarrow> audit_logger \<Rightarrow> files \<Rightarrow> string \<Rightarrow> string \<Rightarrow>
   string \<Rightarrow> string \<Rightarrow> string \<Rightarrow> (string \<times> json) list list \<Rightarrow> rat \<Rightarrow> int \<Rightarrow>
   (string \<times> json) list option \<Rightarrow> string \<times> files" where
  "log_query md5_hex dumps self fs now_str now_iso user_id query answer sources confidence risk
     metadata =
     (let query_id = generate_id md5_hex [query, user_id] now_str;
          log_entry = query_log_entry query_id now_iso user_id query answer sources confidence
                        risk metadata;
          fs = write_log dumps fs (query_log_file self) log_entry
      in (query_id, fs))"

definition json_opt_str :: "string option \<Rightarrow> json" where
  "json_opt_str s = (case s of None \<Rightarrow> JNull | Some t \<Rightarrow> JStr t)"

text \<open>
  The three other logging functions, each on its own partition. An optional string
  argument that is \<open>None\<close> is written as \<^verbatim>\<open>null\<close>.
\<close>

definition access_log_entry ::
  "string \<Rightarrow> string \<Rightarrow> string \<Rightarrow> string \<Rightarrow> string \<Rightarrow> (string \<times> json) list option \<Rightarrow> json" where
  "access_log_entry now_iso user_id action resource status_text metadata =
     JObj
      [(''timestamp'', JStr now_iso),
       (''user_id'', JStr user_id),
       (''action'', JStr action),
       (''resource'', JStr resource),
       (''status'', JStr status_text),
       (''metadata'', JObj (case metadata of None \<Rightarrow> [] | Some d \<Rightarrow> d))]"

definition log_access ::
  "json_dumps \<Rightarrow> audit_logger \<Rightarrow> files \<Rightarrow> string \<Rightarrow> string \<Rightarrow> string \<Rightarrow> string \<Rightarrow>
   string \<Rightarrow> (string \<times> json) list option \<Rightarrow> files" where
  "log_access dumps self fs now_iso user_id action resource status_text metadata =
     write_log dumps fs (access_log_file self)
       (access_log_entry now_iso user_id action resource status_text metadata)"

definition alert_log_entry ::
  "string \<Rightarrow> string \<Rightarrow> string \<Rightarrow> string \<Rightarrow> string \<Rightarrow> string option \<Rightarrow>
   string option \<Rightarrow> (string \<times> json) list option \<Rightarrow> json" where
  "alert_log_entry alert_id now_iso alert_type severity message query_id user_id metadata =
     JObj
      [(''alert_id'', JStr alert_id),
       (''timestamp'', JStr now_iso),
       (''alert_type'', JStr alert_type),
       (''severity'', JStr severity),
       (''message'', JStr message),
       (''query_id'', json_opt_str query_id),
       (''user_id'', json_opt_str user_id),
       (''metadata'', JObj (case metadata of None \<Rightarrow> [] | Some d \<Rightarrow> d))]"

definition log_alert ::
  "(string \<Rightarrow> string) \<Rightarrow> json_dumps \<Rightarrow> audit_logger \<Rightarrow> files \<Rightarrow> string \<Rightarrow> string \<Rightarrow>
   string \<Rightarrow> string \<Rightarrow> string \<Rightarrow> string option \<Rightarrow> string option \<Rightarrow>
   (string \<times> json) list option \<Rightarrow> string \<times> files" where
  "log_alert md5_hex dumps self fs now_str now_iso alert_type severity message query_id user_id
     metadata =
     (let alert_id = generate_id md5_hex [message, alert_type] now_str;
          log_entry = alert_log_entry alert_id now_iso alert_type severity message query_id
                        user_id metadata;
          fs = write_log dumps fs (alert_log_file self) log_entry
      in (alert_id, fs))"

definition document_log_entry ::
  "string \<Rightarrow> string \<Rightarrow> string \<Rightarrow> int \<Rightarrow> string \<Rightarrow> int \<Rightarrow> string \<Rightarrow> json" where
  "document_log_entry now_iso user_id filename file_size file_type chunks_created status_text =
     JObj
      [(''timestamp'', JStr now_iso),
       (''user_id'', JStr user_id),
       (''filename'', JStr filename),
       (''file_size'', JInt file_size),
       (''file_type'', JStr file_type),
       (''chunks_created'', JInt chunks_created),
       (''status'', JStr status_text)]"

definition log_document_upload ::
  "json_dumps \<Rightarrow> audit_logger \<Rightarrow> files \<Rightarrow> string \<Rightarrow> string \<Rightarrow> string \<Rightarrow> int \<Rightarrow>
   string \<Rightarrow> int \<Rightarrow> string \<Rightarrow> files" where
  "log_document_upload dumps self fs now_iso user_id filename file_size file_type chunks_created
     status_text =
     write_log dumps fs (document_log_file self)
       (document_log_entry now_iso user_id filename file_size file_type chunks_created
          status_text)"

text \<open>
  \<^verbatim>\<open>export_audit_trail\<close>. The dictionary \<^verbatim>\<open>export_data\<close> reads the four partitions with the
  default arguments of \<^verbatim>\<open>_read_log\<close> (no user filter, \<^verbatim>\<open>limit=100\<close>).
\<close>

definition export_data ::
  "json_loads \<Rightarrow> audit_logger \<Rightarrow> files \<Rightarrow> string \<Rightarrow> string option \<Rightarrow> string option \<Rightarrow>
   py_error + json" where
  "export_data loads self fs now_iso start_date end_date =
     (case read_log loads fs (query_log_file self) None 100 of Inl e \<Rightarrow> Inl e | Inr queries \<Rightarrow>
     (case read_log loads fs (access_log_file self) None 100 of Inl e \<Rightarrow> Inl e | Inr access_logs \<Rightarrow>
     (case read_log loads fs (alert_log_file self) None 100 of Inl e \<Rightarrow> Inl e | Inr alerts \<Rightarrow>
     (case read_log loads fs (document_log_file self) None 100 of Inl e \<Rightarrow> Inl e | Inr documents \<Rightarrow>
        Inr (JObj
          [(''export_timestamp'', JStr now_iso),
           (''date_range'',
              JObj [(''start'', json_opt_str start_date), (''end'', json_opt_str end_date)]),
           (''queries'', JArr queries),
           (''access_logs'', JArr access_logs),
           (''alerts'', JArr alerts),
           (''documents'', JArr documents)])))))"

text \<open>
  \<open>now_stamp\<close> is \<^verbatim>\<open>datetime.now().strftime('%Y%m%d_%H%M%S')\<close>, \<open>dump_indent\<close> is
  \<^verbatim>\<open>json.dump\<close> with \<^verbatim>\<open>indent=2\<close>. The output file is opened for writing after the four
  partitions have been read. The result is the path and the new file system.
\<close>

definition export_audit_trail ::
  "json_loads \<Rightarrow> json_dumps \<Rightarrow> audit_logger \<Rightarrow> files \<Rightarrow> string \<Rightarrow> string \<Rightarrow>
   string option \<Rightarrow> string option \<Rightarrow> string option \<Rightarrow> py_error + string \<times> files" where
  "export_audit_trail loads dump_indent self fs now_stamp now_iso start_date end_date output_file =
     (let output_file =
            (if output_file = None \<or> output_file = Some []
             then os_path_join (log_dir self) (''audit_export_'' @ now_stamp @ ''.json'')
             else the output_file)
      in case export_data loads self fs now_iso start_date end_date of
           Inl e \<Rightarrow> Inl e
         | Inr data \<Rightarrow> Inr (output_file, fs(output_file \<mapsto> dump_indent data)))"

subsection \<open>Records appended by the logger and lines injected from outside\<close>

text \<open>
  What happens to one partition: the logger appends an entry, or some other writer
  appends a raw line.
\<close>

datatype log_op = Append json | Inject string

fun apply_op :: "json_dumps \<Rightarrow> string \<Rightarrow> files \<Rightarrow> log_op \<Rightarrow> files" where
  "apply_op dumps log_file fs (Append entry) = write_log dumps fs log_file entry"
| "apply_op dumps log_file fs (Inject line) =
     fs(log_file \<mapsto> file_text fs log_file @ line @ [newline])"

fun appended :: "log_op list \<Rightarrow> json list" where
  "appended [] = []"
| "appended (Append entry # ops) = entry # appended ops"
| "appended (Inject line # ops) = appended ops"

text \<open>
  A well-formed record, for the JSON library at hand: its serialisation is one line of
  text without white space at either end, and parses back to the record. A malformed
  line is a line that does not parse.
\<close>

definition well_formed :: "json_dumps \<Rightarrow> json_loads \<Rightarrow> json \<Rightarrow> bool" where
  "well_formed dumps loads entry \<longleftrightarrow>
     loads (dumps entry) = Some entry
     \<and> newline \<notin> set (dumps entry)
     \<and> dumps entry \<noteq> []
     \<and> \<not> is_space (hd (dumps entry))
     \<and> \<not> is_space (last (dumps entry))"

definition malformed :: "json_loads \<Rightarrow> string \<Rightarrow> bool" where
  "malformed loads line \<longleftrightarrow> newline \<notin> set line \<and> loads (strip (line @ [newline])) = None"

fun valid_op :: "json_dumps \<Rightarrow> json_loads \<Rightarrow> log_op \<Rightarrow> bool" where
  "valid_op dumps loads (Append entry) = well_formed dumps loads entry"
| "valid_op dumps loads (Inject line) = malformed loads line"

subsection \<open>A JSON library for plain strings\<close>

text \<open>
  A serialiser and a parser for the fragment of JSON made of \<^verbatim>\<open>null\<close> and of strings
  without quote or backslash; it instantiates the two library arguments in examples.
\<close>

definition plain_dumps :: json_dumps where
  "plain_dumps v = (case v of JStr s \<Rightarrow> [CHR 0x22] @ s @ [CHR 0x22] | _ \<Rightarrow> ''null'')"

definition plain_loads :: json_loads where
  "plain_loads t =
     (if t = ''null'' then Some JNull
      else if 2 \<le> length t \<and> hd t = CHR 0x22 \<and> last t = CHR 0x22
              \<and> CHR 0x22 \<notin> set (butlast (tl t)) \<and> CHR 0x5C \<notin> set (butlast (tl t))
           then Some (JStr (butlast (tl t)))
           else None)"

text \<open>The text that one operation adds to the partition.\<close>

fun op_text :: "json_dumps \<Rightarrow> log_op \<Rightarrow> string" where
  "op_text dumps (Append entry) = dumps entry @ [newline]"
| "op_text dumps (Inject line) = line @ [newline]"

section \<open>Compliance dashboard (\<^verbatim>\<open>compliance_dashboard.py\<close>)\<close>

text \<open>
  The dashboard object holds a document collection and, optionally, an audit logger. Of
  the collection the dashboard uses \<^verbatim>\<open>collection.get()\<close> only: the call raises (\<open>Inl\<close>
  with the message of the exception) or returns the metadata of the stored chunks, each
  a dictionary with an optional \<^verbatim>\<open>source\<close>. Of the logger it uses \<^verbatim>\<open>get_statistics()\<close> and
  \<^verbatim>\<open>get_query_history(limit=100)\<close>; the logger is modelled by the result of the first and
  by the parsed records of its query partition in file order, of which
  \<^verbatim>\<open>get_query_history\<close> returns the last \<^verbatim>\<open>limit\<close>. Of a query record the dashboard reads
  the two numbers \<^verbatim>\<open>confidence_score\<close> and \<^verbatim>\<open>risk_score\<close>, each possibly absent.
\<close>

record chunk_metadata =
  source :: "string option"

record audit_statistics =
  stat_total_queries :: nat
  stat_total_access_logs :: nat
  stat_total_alerts :: nat
  stat_total_documents_processed :: nat
  stat_recent_high_severity_alerts :: nat
  stat_last_updated :: string

record query_record =
  q_confidence_score :: "rat option"
  q_risk_score :: "rat option"

record logger_object =
  get_statistics :: audit_statistics
  query_records :: "query_record list"

definition logger_get_query_history :: "logger_object \<Rightarrow> int \<Rightarrow> query_record list" where
  "logger_get_query_history logger limit = py_slice_last (query_records logger) limit"

record compliance_dashboard =
  collection_get :: "string + chunk_metadata list"
  dashboard_audit_logger :: "logger_object option"

subsection \<open>\<^verbatim>\<open>get_document_coverage\<close>\<close>

text \<open>
  \<^verbatim>\<open>sources[source] += 1\<close>, after the key has been created with 0 if it was absent; a
  dictionary of counts is the list of its items in insertion order.
\<close>

definition count_source :: "string \<Rightarrow> (string \<times> nat) list \<Rightarrow> (string \<times> nat) list" where
  "count_source s sources =
     (let sources = (if s \<notin> set (map fst sources) then sources @ [(s, 0)] else sources)
      in map (\<lambda>(k, v). if k = s then (k, v + 1) else (k, v)) sources)"

text \<open>\<^verbatim>\<open>coverage[key] += count\<close> on a dictionary that has the key.\<close>

definition dict_add :: "string \<Rightarrow> nat \<Rightarrow> (string \<times> nat) list \<Rightarrow> (string \<times> nat) list" where
  "dict_add key n d = map (\<lambda>(k, v). if k = key then (k, v + n) else (k, v)) d"

text \<open>The \<^verbatim>\<open>if\<close>/\<^verbatim>\<open>elif\<close> chain that picks the regulation of a source name.\<close>

definition regulation_of :: "string \<Rightarrow> string" where
  "regulation_of src =
     (let source_lower = lower src
      in if str_contains ''rbi'' source_lower then ''RBI''
         else if str_contains ''sebi'' source_lower then ''SEBI''
         else if str_contains ''fatf'' source_lower then ''FATF''
         else if str_contains ''gdpr'' source_lower then ''GDPR''
         else ''Other'')"

record coverage_report =
  coverage_error :: "string option"
  total_documents :: nat
  total_chunks :: "nat option"
  coverage_by_regulation :: "(string \<times> nat) list"
  coverage_percentage :: "(string \<times> nat) list option"
  document_list :: "string list option"
  last_updated :: string

definition get_document_coverage :: "compliance_dashboard \<Rightarrow> string \<Rightarrow> coverage_report" where
  "get_document_coverage self now_iso =
     (case collection_get self of
        Inl message \<Rightarrow>
          \<lparr> coverage_error = Some message, total_documents = 0, total_chunks = None,
            coverage_by_regulation = [], coverage_percentage = None, document_list = None,
            last_updated = now_iso \<rparr>
      | Inr metadatas \<Rightarrow>
          if metadatas = [] then
            \<lparr> coverage_error = None, total_documents = 0, total_chunks = None,
              coverage_by_regulation = [], coverage_percentage = None, document_list = None,
              last_updated = now_iso \<rparr>
          else
            (let sources = fold (\<lambda>metadata sources.
                              count_source (dict_get (source metadata) ''Unknown'') sources)
                             metadatas [];
                 coverage = [(''RBI'', 0), (''SEBI'', 0), (''FATF'', 0), (''GDPR'', 0),
                             (''Other'', 0)];
                 coverage = fold (\<lambda>(src, count) coverage.
                              dict_add (regulation_of src) count coverage) sources coverage;
                 chunks = sum_list (map snd coverage);
                 coverage_percent =
                   map (\<lambda>(reg, count). (reg, if count > 0 then min count 100 else 0)) coverage
             in \<lparr> coverage_error = None, total_documents = length sources,
                  total_chunks = Some chunks, coverage_by_regulation = coverage,
                  coverage_percentage = Some coverage_percent,
                  document_list = Some (map fst sources), last_updated = now_iso \<rparr>))"

subsection \<open>\<^verbatim>\<open>get_query_statistics\<close>\<close>

record query_statistics =
  statistics_error :: "string option"
  audit_stats :: "audit_statistics option"
  avg_confidence_score :: "rat option"
  avg_risk_score :: "rat option"
  high_risk_queries :: "nat option"
  recent_query_count :: "nat option"

definition get_query_statistics :: "compliance_dashboard \<Rightarrow> query_statistics" where
  "get_query_statistics self =
     (case dashboard_audit_logger self of
        None \<Rightarrow>
          \<lparr> statistics_error = Some ''Audit logger not configured'', audit_stats = None,
            avg_confidence_score = None, avg_risk_score = None, high_risk_queries = None,
            recent_query_count = None \<rparr>
      | Some logger \<Rightarrow>
          (let stats = get_statistics logger;
               recent_queries = logger_get_query_history logger 100
           in if recent_queries \<noteq> [] then
                (let confidences = map (\<lambda>q. dict_get (q_confidence_score q) 0) recent_queries;
                     avg_confidence =
                       (if confidences \<noteq> []
                        then sum_list confidences / of_nat (length confidences) else 0);
                     risks = map (\<lambda>q. dict_get (q_risk_score q) 0) recent_queries;
                     avg_risk =
                       (if risks \<noteq> [] then sum_list risks / of_nat (length risks) else 0);
                     high_risk_count = length (filter (\<lambda>r. r \<ge> 70) risks)
                 in \<lparr> statistics_error = None, audit_stats = Some stats,
                      avg_confidence_score = Some (py_round avg_confidence 2),
                      avg_risk_score = Some (py_round avg_risk 2),
                      high_risk_queries = Some high_risk_count,
                      recent_query_count = Some (length recent_queries) \<rparr>)
              else
                \<lparr> statistics_error = None, audit_stats = Some stats,
                  avg_confidence_score = None, avg_risk_score = None,
                  high_risk_queries = None, recent_query_count = None \<rparr>))"

subsection \<open>\<^verbatim>\<open>get_compliance_score\<close>\<close>

record compliance_score =
  overall_score :: rat
  status :: string
  status_color :: string
  document_coverage :: rat
  query_confidence :: rat
  risk_management :: rat
  score_timestamp :: string

text \<open>The status and its colour, from the sum before rounding.\<close>

definition compliance_status :: "rat \<Rightarrow> string \<times> string" where
  "compliance_status score =
     (if score \<ge> 80 then (''EXCELLENT'', ''green'')
      else if score \<ge> 60 then (''GOOD'', ''yellow'')
      else if score \<ge> 40 then (''FAIR'', ''orange'')
      else (''NEEDS IMPROVEMENT'', ''red''))"

text \<open>
  The list \<^verbatim>\<open>score_components\<close> after the three \<^verbatim>\<open>if\<close> blocks: a component is appended
  when its input is there, so the position of a component depends on the ones before it.
\<close>

definition score_components :: "coverage_report \<Rightarrow> query_statistics \<Rightarrow> rat list" where
  "score_components coverage query_stats =
     (let components = [];
          components =
            (case coverage_percentage coverage of
               None \<Rightarrow> components
             | Some percent \<Rightarrow>
                 if percent \<noteq> []
                 then (let avg_coverage =
                             of_nat (sum_list (map snd percent)) / of_nat (length percent)
                       in components @ [avg_coverage * (4 / 10)])
                 else components);
          components =
            (case avg_confidence_score query_stats of
               None \<Rightarrow> components
             | Some confidence \<Rightarrow> components @ [confidence * 100 * (3 / 10)]);
          components =
            (case avg_risk_score query_stats of
               None \<Rightarrow> components
             | Some risk \<Rightarrow> components @ [(100 - risk) * (3 / 10)])
      in components)"

text \<open>
  \<open>now_coverage\<close> and \<open>now_iso\<close> are the clock readings of \<^verbatim>\<open>get_document_coverage\<close> and
  of \<^verbatim>\<open>get_compliance_score\<close> itself.
\<close>

definition get_compliance_score :: "compliance_dashboard \<Rightarrow> string \<Rightarrow> string \<Rightarrow> compliance_score" where
  "get_compliance_score self now_coverage now_iso =
     (let coverage = get_document_coverage self now_coverage;
          query_stats = get_query_statistics self;
          components = score_components coverage query_stats;
          overall = (if components \<noteq> [] then sum_list components else 0);
          (st, color) = compliance_status overall
      in \<lparr> overall_score = py_round overall 1,
           status = st,
           status_color = color,
           document_coverage = py_round (if length components > 0 then components ! 0 else 0) 1,
           query_confidence = py_round (if length components > 1 then components ! 1 else 0) 1,
           risk_management = py_round (if length components > 2 then components ! 2 else 0) 1,
           score_timestamp = now_iso \<rparr>)"

subsection \<open>The three weighted components in the words of the specification\<close>

text \<open>
  The weighted coverage, confidence and inverse-risk components of a dashboard state;
  \<open>None\<close> when the input of the component is not available.
\<close>

definition weighted_coverage :: "compliance_dashboard \<Rightarrow> string \<Rightarrow> rat option" where
  "weighted_coverage self now_coverage =
     (case coverage_percentage (get_document_coverage self now_coverage) of
        None \<Rightarrow> None
      | Some percent \<Rightarrow>
          if percent = [] then None
          else Some (4 / 10 * (of_nat (sum_list (map snd percent)) / of_nat (length percent))))"

definition weighted_confidence :: "compliance_dashboard \<Rightarrow> rat option" where
  "weighted_confidence self =
     map_option (\<lambda>c. 3 / 10 * (c * 100)) (avg_confidence_score (get_query_statistics self))"

definition weighted_inverse_risk :: "compliance_dashboard \<Rightarrow> rat option" where
  "weighted_inverse_risk self =
     map_option (\<lambda>r. 3 / 10 * (100 - r)) (avg_risk_score (get_query_statistics self))"



subsection \<open>Dashboard states of the examples\<close>

definition no_statistics :: audit_statistics where
  "no_statistics =
     \<lparr> stat_total_queries = 0, stat_total_access_logs = 0, stat_total_alerts = 0,
       stat_total_documents_processed = 0, stat_recent_high_severity_alerts = 0,
       stat_last_updated = '''' \<rparr>"

text \<open>
  Four documents of 100 chunks each, one per named regulation (average coverage 80), and
  one logged query with confidence 0.9 and risk score 20.
\<close>

definition scenario_dashboard :: compliance_dashboard where
  "scenario_dashboard =
     \<lparr> collection_get =
         Inr (concat (map (\<lambda>name. replicate 100 \<lparr> source = Some name \<rparr>)
                [''rbi_kyc.pdf'', ''sebi_circular.pdf'', ''fatf_guidance.pdf'', ''gdpr.pdf''])),
       dashboard_audit_logger =
         Some \<lparr> get_statistics = no_statistics,
                query_records = [\<lparr> q_confidence_score = Some (9 / 10), q_risk_score = Some 20 \<rparr>] \<rparr> \<rparr>"


text \<open>No document in the collection, and one logged query with confidence 0.9 and risk 20.\<close>

definition no_documents_dashboard :: compliance_dashboard where
  "no_documents_dashboard =
     \<lparr> collection_get = Inr [],
       dashboard_audit_logger =
         Some \<lparr> get_statistics = no_statistics,
                query_records = [\<lparr> q_confidence_score = Some (9 / 10), q_risk_score = Some 20 \<rparr>] \<rparr> \<rparr>"


chapter \<open>Verified properties\<close>

section \<open>Risk scoring\<close>

lemma amount_based_risk_eq:
  "amount_based_risk a (s, f) = (s + amount_points a, f @ amount_flags a)"
  by (simp add: amount_based_risk_def amount_points_def amount_flags_def)

lemma velocity_risk_eq:
  "velocity_risk n (s, f) = (s + velocity_points n, f @ velocity_flags n)"
  by (simp add: velocity_risk_def velocity_points_def velocity_flags_def)

lemma geographic_risk_eq:
  "geographic_risk c (s, f) = (s + country_points c, f @ country_flags c)"
  by (simp add: geographic_risk_def country_points_def country_flags_def)

lemma cash_transaction_risk_eq:
  "cash_transaction_risk b (s, f) = (s + cash_points b, f @ cash_flags b)"
  by (simp add: cash_transaction_risk_def cash_points_def cash_flags_def)

lemma customer_type_risk_eq:
  "customer_type_risk ct a (s, f) = (s + corporate_points ct a, f @ corporate_flags ct a)"
  by (simp add: customer_type_risk_def corporate_points_def corporate_flags_def)

lemmas rule_block_eqs =
  amount_based_risk_eq velocity_risk_eq geographic_risk_eq cash_transaction_risk_eq
  customer_type_risk_eq

lemmas rule_table_defs =
  amount_points_def amount_flags_def velocity_points_def velocity_flags_def
  country_points_def country_flags_def cash_points_def cash_flags_def
  corporate_points_def corporate_flags_def

lemma transaction_score_eq:
  "risk_score (calculate_transaction_risk t now) =
     min 100 (amount_points (dict_get (amount t) 0) + velocity_points (dict_get (count_24h t) 0)
       + country_points (dict_get (country t) []) + cash_points (dict_get (is_cash t) False)
       + corporate_points (customer_type t) (dict_get (amount t) 0))"
  by (simp add: calculate_transaction_risk_def Let_def rule_block_eqs case_prod_beta min.commute)

lemma transaction_flags_eq:
  "flags (calculate_transaction_risk t now) =
     amount_flags (dict_get (amount t) 0) @ velocity_flags (dict_get (count_24h t) 0)
       @ country_flags (dict_get (country t) []) @ cash_flags (dict_get (is_cash t) False)
       @ corporate_flags (customer_type t) (dict_get (amount t) 0)"
  by (simp add: calculate_transaction_risk_def Let_def rule_block_eqs case_prod_beta)

lemma transaction_level_eq:
  "risk_level (calculate_transaction_risk t now) =
     fst (transaction_risk_level (risk_score (calculate_transaction_risk t now)))"
  by (simp add: calculate_transaction_risk_def Let_def case_prod_beta)

lemma transaction_level_bands:
  "(fst (transaction_risk_level s) = ''HIGH'' \<longleftrightarrow> s \<ge> 70)
   \<and> (fst (transaction_risk_level s) = ''MEDIUM'' \<longleftrightarrow> 40 \<le> s \<and> s < 70)
   \<and> (fst (transaction_risk_level s) = ''LOW'' \<longleftrightarrow> s < 40)"
  by (simp add: transaction_risk_level_def)

lemma rule_points_nonneg:
  "0 \<le> amount_points a" "0 \<le> velocity_points n" "0 \<le> country_points c"
  "0 \<le> cash_points b" "0 \<le> corporate_points ct a"
  by (simp_all add: rule_table_defs)

lemma transaction_score_range:
  "0 \<le> risk_score (calculate_transaction_risk t now)"
  "risk_score (calculate_transaction_risk t now) \<le> 100"
  by (simp_all add: transaction_score_eq rule_points_nonneg)

lemma test_transaction_result:
  "calculate_transaction_risk test_transaction now =
     \<lparr> risk_score = 90, risk_level = ''HIGH'',
       flags = [HighValue 55000, HighVelocity 15, HighRiskJurisdiction ''Iran'', CashTransaction],
       recommended_action = ''Enhanced Due Diligence Required'', timestamp = now \<rparr>"
  by (simp add: calculate_transaction_risk_def test_transaction_def Let_def dict_get_def
      amount_based_risk_def velocity_risk_def geographic_risk_def cash_transaction_risk_def
      customer_type_risk_def transaction_risk_level_def HIGH_RISK_COUNTRIES_def)

lemma empty_transaction_result:
  "calculate_transaction_risk empty_transaction now =
     \<lparr> risk_score = 0, risk_level = ''LOW'', flags = [],
       recommended_action = ''Normal Processing'', timestamp = now \<rparr>"
  by (simp add: calculate_transaction_risk_def empty_transaction_def Let_def dict_get_def
      amount_based_risk_def velocity_risk_def geographic_risk_def cash_transaction_risk_def
      customer_type_risk_def transaction_risk_level_def HIGH_RISK_COUNTRIES_def)

text \<open>
  \<^bold>\<open>C1.\<close> For every transaction dictionary, with an absent key read as its default
  (amount 0, count 0, country the empty string, cash flag false, no customer type),
  \<^verbatim>\<open>calculate_transaction_risk\<close> returns as score the sum, capped at 100, of: 35 for an
  amount of at least 50000, else 20 for an amount of at least 10000; 30 for more than 20
  transactions in 24 hours, else 15 for more than 10; 25 for a country of the high-risk
  list; 15 for a cash transaction; 10 for a corporate customer with an amount below 1000.
  The score lies in \<open>[0, 100]\<close>; the level is HIGH exactly for a score of at least 70,
  MEDIUM exactly from 40 to below 70, LOW exactly below 40; the flags are those of the
  rules that fired, in the order of the rules. The dictionary with no key at all scores 0
  with no flag, and the transaction of the scenario scores 90 with level HIGH.
\<close>

theorem calculate_transaction_risk_rules:
  "(let r = calculate_transaction_risk t now;
        a = dict_get (amount t) 0;
        n = dict_get (count_24h t) 0;
        c = dict_get (country t) [];
        cash = dict_get (is_cash t) False;
        corporate = (customer_type t = Some ''corporate'')
    in risk_score r = min 100
         ( (if a \<ge> 50000 then 35 else if a \<ge> 10000 then 20 else 0)
         + (if n > 20 then 30 else if n > 10 then 15 else 0)
         + (if c \<in> set HIGH_RISK_COUNTRIES then 25 else 0)
         + (if cash then 15 else 0)
         + (if corporate \<and> a < 1000 then 10 else 0))
     \<and> 0 \<le> risk_score r \<and> risk_score r \<le> 100
     \<and> (risk_level r = ''HIGH'' \<longleftrightarrow> risk_score r \<ge> 70)
     \<and> (risk_level r = ''MEDIUM'' \<longleftrightarrow> 40 \<le> risk_score r \<and> risk_score r < 70)
     \<and> (risk_level r = ''LOW'' \<longleftrightarrow> risk_score r < 40)
     \<and> flags r =
          (if a \<ge> 50000 then [HighValue a] else if a \<ge> 10000 then [MediumValue a] else [])
          @ (if n > 20 then [VeryHighVelocity n] else if n > 10 then [HighVelocity n] else [])
          @ (if c \<in> set HIGH_RISK_COUNTRIES then [HighRiskJurisdiction c] else [])
          @ (if cash then [CashTransaction] else [])
          @ (if corporate \<and> a < 1000 then [SmallCorporate] else []))
   \<and> risk_score (calculate_transaction_risk empty_transaction now) = 0
   \<and> flags (calculate_transaction_risk empty_transaction now) = []
   \<and> risk_score (calculate_transaction_risk test_transaction now) = 90
   \<and> risk_level (calculate_transaction_risk test_transaction now) = ''HIGH''"
proof -
  let ?r = "calculate_transaction_risk t now"
  have general: "(let r = calculate_transaction_risk t now;
        a = dict_get (amount t) 0;
        n = dict_get (count_24h t) 0;
        c = dict_get (country t) [];
        cash = dict_get (is_cash t) False;
        corporate = (customer_type t = Some ''corporate'')
    in risk_score r = min 100
         ( (if a \<ge> 50000 then 35 else if a \<ge> 10000 then 20 else 0)
         + (if n > 20 then 30 else if n > 10 then 15 else 0)
         + (if c \<in> set HIGH_RISK_COUNTRIES then 25 else 0)
         + (if cash then 15 else 0)
         + (if corporate \<and> a < 1000 then 10 else 0))
     \<and> 0 \<le> risk_score r \<and> risk_score r \<le> 100
     \<and> (risk_level r = ''HIGH'' \<longleftrightarrow> risk_score r \<ge> 70)
     \<and> (risk_level r = ''MEDIUM'' \<longleftrightarrow> 40 \<le> risk_score r \<and> risk_score r < 70)
     \<and> (risk_level r = ''LOW'' \<longleftrightarrow> risk_score r < 40)
     \<and> flags r =
          (if a \<ge> 50000 then [HighValue a] else if a \<ge> 10000 then [MediumValue a] else [])
          @ (if n > 20 then [VeryHighVelocity n] else if n > 10 then [HighVelocity n] else [])
          @ (if c \<in> set HIGH_RISK_COUNTRIES then [HighRiskJurisdiction c] else [])
          @ (if cash then [CashTransaction] else [])
          @ (if corporate \<and> a < 1000 then [SmallCorporate] else []))"
    unfolding Let_def
    using transaction_score_range[of t now] transaction_level_bands[of "risk_score ?r"]
    unfolding transaction_level_eq[symmetric] transaction_flags_eq
    unfolding transaction_score_eq rule_table_defs
    by blast
  have examples:
    "risk_score (calculate_transaction_risk empty_transaction now) = 0
     \<and> flags (calculate_transaction_risk empty_transaction now) = []
     \<and> risk_score (calculate_transaction_risk test_transaction now) = 90
     \<and> risk_level (calculate_transaction_risk test_transaction now) = ''HIGH''"
    by (simp add: empty_transaction_result test_transaction_result)
  show ?thesis
    by (rule conjI [OF general examples])
qed

theorem calculate_transaction_risk_rules_witness:
  "risk_score (calculate_transaction_risk
      \<lparr> amount = Some 500, currency = Some ''USD'', country = Some ''Cuba'',
        count_24h = Some 25, customer_type = Some ''corporate'', is_cash = None \<rparr>
      ''2024-05-01T09:30:00'') = 65
   \<and> risk_level (calculate_transaction_risk
      \<lparr> amount = Some 500, currency = Some ''USD'', country = Some ''Cuba'',
        count_24h = Some 25, customer_type = Some ''corporate'', is_cash = None \<rparr>
      ''2024-05-01T09:30:00'') = ''MEDIUM''
   \<and> flags (calculate_transaction_risk
      \<lparr> amount = Some 500, currency = Some ''USD'', country = Some ''Cuba'',
        count_24h = Some 25, customer_type = Some ''corporate'', is_cash = None \<rparr>
      ''2024-05-01T09:30:00'') = [VeryHighVelocity 25, HighRiskJurisdiction ''Cuba'', SmallCorporate]"
  using calculate_transaction_risk_rules
    [of "\<lparr> amount = Some 500, currency = Some ''USD'', country = Some ''Cuba'',
          count_24h = Some 25, customer_type = Some ''corporate'', is_cash = None \<rparr>"
        "''2024-05-01T09:30:00''"]
  by (simp add: Let_def dict_get_def HIGH_RISK_COUNTRIES_def)

text \<open>
  \<^bold>\<open>C6\<close>, as stated, does not hold: the result of \<^verbatim>\<open>calculate_transaction_risk\<close>
  carries the time of the call in its \<^verbatim>\<open>timestamp\<close> field, so two calls on the same
  input at different instants return different dictionaries.
\<close>

theorem calculate_transaction_risk_not_idempotent:
  "calculate_transaction_risk test_transaction ''2024-05-01T09:30:00.000001''
     \<noteq> calculate_transaction_risk test_transaction ''2024-05-01T09:30:00.000002''"
  by (simp add: test_transaction_result)

text \<open>
  \<^bold>\<open>C6\<close>, amended. The score, the level, the flags and the recommended action of
  \<^verbatim>\<open>calculate_transaction_risk\<close> depend on the input only; the timestamp is the clock
  reading of the call, and it is the only field in which two calls on the same input
  differ.
\<close>

theorem calculate_transaction_risk_deterministic_fields:
  "risk_score (calculate_transaction_risk t now1) = risk_score (calculate_transaction_risk t now2)
   \<and> risk_level (calculate_transaction_risk t now1) = risk_level (calculate_transaction_risk t now2)
   \<and> flags (calculate_transaction_risk t now1) = flags (calculate_transaction_risk t now2)
   \<and> recommended_action (calculate_transaction_risk t now1)
       = recommended_action (calculate_transaction_risk t now2)
   \<and> timestamp (calculate_transaction_risk t now1) = now1
   \<and> timestamp (calculate_transaction_risk t now2) = now2
   \<and> calculate_transaction_risk t now2 = (calculate_transaction_risk t now1)\<lparr>timestamp := now2\<rparr>"
  by (simp add: calculate_transaction_risk_def Let_def case_prod_beta)

theorem calculate_transaction_risk_deterministic_fields_witness:
  "risk_score (calculate_transaction_risk test_transaction ''2024-05-01T09:30:00.000001'')
     = risk_score (calculate_transaction_risk test_transaction ''2024-05-01T09:30:00.000002'')
   \<and> timestamp (calculate_transaction_risk test_transaction ''2024-05-01T09:30:00.000002'')
     = ''2024-05-01T09:30:00.000002''"
  using calculate_transaction_risk_deterministic_fields
    [of test_transaction "''2024-05-01T09:30:00.000001''" "''2024-05-01T09:30:00.000002''"]
  by blast

section \<open>Query risk\<close>

lemma startswith_iff: "startswith s k \<longleftrightarrow> (\<exists>post. s = k @ post)"
  by (induction s k rule: startswith.induct) auto

lemma str_contains_iff: "str_contains k s \<longleftrightarrow> (\<exists>pre post. s = pre @ k @ post)"
proof (induction s)
  case Nil
  then show ?case by simp
next
  case (Cons c cs)
  show ?case
  proof
    assume "str_contains k (c # cs)"
    then consider "startswith (c # cs) k" | "str_contains k cs" by auto
    then show "\<exists>pre post. c # cs = pre @ k @ post"
    proof cases
      case 1
      then obtain post where "c # cs = k @ post" by (auto simp: startswith_iff)
      then have "c # cs = [] @ k @ post" by simp
      then show ?thesis by blast
    next
      case 2
      then obtain pre post where "cs = pre @ k @ post" using Cons.IH by blast
      then have "c # cs = (c # pre) @ k @ post" by simp
      then show ?thesis by blast
    qed
  next
    assume "\<exists>pre post. c # cs = pre @ k @ post"
    then obtain pre post where eq: "c # cs = pre @ k @ post" by blast
    show "str_contains k (c # cs)"
    proof (cases pre)
      case Nil
      with eq have "startswith (c # cs) k" by (auto simp: startswith_iff)
      then show ?thesis by simp
    next
      case (Cons p pre')
      with eq have "cs = pre' @ k @ post" by simp
      then have "str_contains k cs" using Cons.IH by blast
      then show ?thesis by simp
    qed
  qed
qed

lemma lower_append: "lower (a @ b) = lower a @ lower b"
  by (simp add: lower_def)

lemma lower_char_idem: "lower_char (lower_char c) = lower_char c"
  by (simp add: lower_char_def split: option.splits if_splits)

lemma lower_idem: "lower (lower s) = lower s"
  by (simp add: lower_def lower_char_idem)

lemma str_contains_lower:
  "q = pre @ w @ post \<Longrightarrow> str_contains (lower w) (lower q)"
  unfolding str_contains_iff by (metis lower_append)

lemma scan_keywords_eq:
  "scan_keywords w ks ql (s, f) =
     (s + w * int (length (filter (\<lambda>k. str_contains k ql) ks)),
      f @ filter (\<lambda>k. str_contains k ql) ks)"
  by (induction ks arbitrary: s f) (simp_all add: algebra_simps)

lemma query_found_eq:
  "keywords_found (analyze_query_risk q) =
     filter (\<lambda>k. str_contains k (lower q)) HIGH_RISK_KEYWORDS
     @ filter (\<lambda>k. str_contains k (lower q)) MEDIUM_RISK_KEYWORDS"
  by (simp add: analyze_query_risk_def Let_def scan_keywords_eq case_prod_beta)

lemma query_score_eq:
  "risk_score (analyze_query_risk q) =
     min 100 (15 * int (length (filter (\<lambda>k. str_contains k (lower q)) HIGH_RISK_KEYWORDS))
            + 8 * int (length (filter (\<lambda>k. str_contains k (lower q)) MEDIUM_RISK_KEYWORDS)))"
  by (simp add: analyze_query_risk_def Let_def scan_keywords_eq case_prod_beta min.commute)

lemma query_level_eq:
  "risk_level (analyze_query_risk q) = fst (query_risk_level (risk_score (analyze_query_risk q)))"
  "requires_alert (analyze_query_risk q) = snd (query_risk_level (risk_score (analyze_query_risk q)))"
  by (simp_all add: analyze_query_risk_def Let_def case_prod_beta)

lemma query_level_bands:
  "(snd (query_risk_level s) \<longleftrightarrow> s \<ge> 50)
   \<and> (fst (query_risk_level s) = ''HIGH'' \<longleftrightarrow> s \<ge> 50)
   \<and> (fst (query_risk_level s) = ''MEDIUM'' \<longleftrightarrow> 25 \<le> s \<and> s < 50)
   \<and> (fst (query_risk_level s) = ''LOW'' \<longleftrightarrow> s < 25)"
  by (simp add: query_risk_level_def)

lemma query_depends_on_lower:
  "lower q' = lower q \<Longrightarrow> analyze_query_risk q' = analyze_query_risk q"
  by (simp add: analyze_query_risk_def)

lemma keyword_tables_distinct: "distinct (HIGH_RISK_KEYWORDS @ MEDIUM_RISK_KEYWORDS)"
  by (simp add: HIGH_RISK_KEYWORDS_def MEDIUM_RISK_KEYWORDS_def)

lemma keyword_tables_lower: "map lower (HIGH_RISK_KEYWORDS @ MEDIUM_RISK_KEYWORDS) = HIGH_RISK_KEYWORDS @ MEDIUM_RISK_KEYWORDS"
  by code_simp

lemma test_query_result:
  "analyze_query_risk test_query =
     \<lparr> risk_score = 15, risk_level = ''LOW'', flags = [RiskKeywords [''terrorist'']],
       keywords_found = [''terrorist''], requires_alert = False \<rparr>"
  by code_simp

text \<open>
  \<^bold>\<open>C2.\<close> For every query text, \<^verbatim>\<open>analyze_query_risk\<close> finds exactly the keywords of the
  two tables that occur as substrings of the lower-cased text, each listed once in table
  order (no keyword is listed twice in the tables, and all are in lower case); the score
  is 15 for each high-tier keyword found plus 8 for each medium-tier keyword found,
  capped at 100, whatever the number of occurrences; an alert is required exactly for a
  score of at least 50; the level is HIGH exactly from 50, MEDIUM exactly from 25 to
  below 50 and LOW exactly below 25. The result depends on the lower-cased text only, and
  a word occurring in the text in any letter case is found in its lower-case form. The
  query of the scenario scores 15 with level LOW and no alert.
\<close>

theorem analyze_query_risk_keywords:
  "(let r = analyze_query_risk q;
        high = filter (\<lambda>k. str_contains k (lower q)) HIGH_RISK_KEYWORDS;
        medium = filter (\<lambda>k. str_contains k (lower q)) MEDIUM_RISK_KEYWORDS
    in keywords_found r = high @ medium
     \<and> risk_score r = min 100 (15 * int (length high) + 8 * int (length medium))
     \<and> (requires_alert r \<longleftrightarrow> risk_score r \<ge> 50)
     \<and> (risk_level r = ''HIGH'' \<longleftrightarrow> risk_score r \<ge> 50)
     \<and> (risk_level r = ''MEDIUM'' \<longleftrightarrow> 25 \<le> risk_score r \<and> risk_score r < 50)
     \<and> (risk_level r = ''LOW'' \<longleftrightarrow> risk_score r < 25))
   \<and> distinct (HIGH_RISK_KEYWORDS @ MEDIUM_RISK_KEYWORDS)
   \<and> map lower (HIGH_RISK_KEYWORDS @ MEDIUM_RISK_KEYWORDS) = HIGH_RISK_KEYWORDS @ MEDIUM_RISK_KEYWORDS
   \<and> (\<forall>k s. str_contains k s \<longleftrightarrow> (\<exists>pre post. s = pre @ k @ post))
   \<and> (\<forall>pre w post. q = pre @ w @ post \<longrightarrow> str_contains (lower w) (lower q))
   \<and> (\<forall>q'. lower q' = lower q \<longrightarrow> analyze_query_risk q' = analyze_query_risk q)
   \<and> risk_score (analyze_query_risk test_query) = 15
   \<and> risk_level (analyze_query_risk test_query) = ''LOW''
   \<and> \<not> requires_alert (analyze_query_risk test_query)"
proof -
  let ?r = "analyze_query_risk q"
  have general: "(let r = analyze_query_risk q;
        high = filter (\<lambda>k. str_contains k (lower q)) HIGH_RISK_KEYWORDS;
        medium = filter (\<lambda>k. str_contains k (lower q)) MEDIUM_RISK_KEYWORDS
    in keywords_found r = high @ medium
     \<and> risk_score r = min 100 (15 * int (length high) + 8 * int (length medium))
     \<and> (requires_alert r \<longleftrightarrow> risk_score r \<ge> 50)
     \<and> (risk_level r = ''HIGH'' \<longleftrightarrow> risk_score r \<ge> 50)
     \<and> (risk_level r = ''MEDIUM'' \<longleftrightarrow> 25 \<le> risk_score r \<and> risk_score r < 50)
     \<and> (risk_level r = ''LOW'' \<longleftrightarrow> risk_score r < 25))"
    unfolding Let_def
    using query_found_eq[of q] query_score_eq[of q] query_level_bands[of "risk_score ?r"]
    unfolding query_level_eq[symmetric]
    by blast
  have m1: "\<forall>k s. str_contains k s \<longleftrightarrow> (\<exists>pre post. s = pre @ k @ post)"
    by (intro allI str_contains_iff)
  have m2: "\<forall>pre w post. q = pre @ w @ post \<longrightarrow> str_contains (lower w) (lower q)"
    by (intro allI impI str_contains_lower)
  have m3: "\<forall>q'. lower q' = lower q \<longrightarrow> analyze_query_risk q' = analyze_query_risk q"
    by (intro allI impI query_depends_on_lower)
  have scenario:
    "risk_score (analyze_query_risk test_query) = 15
     \<and> risk_level (analyze_query_risk test_query) = ''LOW''
     \<and> \<not> requires_alert (analyze_query_risk test_query)"
    by (simp add: test_query_result)
  show ?thesis
    by (intro conjI [OF general] conjI [OF keyword_tables_distinct]
        conjI [OF keyword_tables_lower] conjI [OF m1] conjI [OF m2] conjI [OF m3] scenario)
qed

theorem analyze_query_risk_keywords_witness:
  "analyze_query_risk ''Is CASH structuring Money Laundering?''
     = analyze_query_risk ''is cash structuring money laundering?''
   \<and> str_contains ''cash'' (lower ''Is CASH structuring Money Laundering?'')
   \<and> keywords_found (analyze_query_risk ''is cash structuring money laundering?'')
       = [''laundering'', ''money laundering'', ''cash'', ''structuring'']
   \<and> risk_score (analyze_query_risk ''is cash structuring money laundering?'') = 46
   \<and> risk_level (analyze_query_risk ''is cash structuring money laundering?'') = ''MEDIUM''"
proof -
  let ?q = "''is cash structuring money laundering?''"
  let ?Q = "''Is CASH structuring Money Laundering?''"
  note inst = analyze_query_risk_keywords [of ?q]
  have low: "lower ?Q = lower ?q" by code_simp
  have parts: "?q = ''is '' @ ''cash'' @ '' structuring money laundering?''" by simp
  have high: "filter (\<lambda>k. str_contains k (lower ?q)) HIGH_RISK_KEYWORDS
                = [''laundering'', ''money laundering'']" by code_simp
  have medium: "filter (\<lambda>k. str_contains k (lower ?q)) MEDIUM_RISK_KEYWORDS
                = [''cash'', ''structuring'']" by code_simp
  have same: "analyze_query_risk ?Q = analyze_query_risk ?q"
    using inst low by blast
  have found: "str_contains (lower ''cash'') (lower ?q)"
    using inst parts by blast
  have cash: "lower ''cash'' = ''cash''" by code_simp
  have general: "(let r = analyze_query_risk ?q;
        high = filter (\<lambda>k. str_contains k (lower ?q)) HIGH_RISK_KEYWORDS;
        medium = filter (\<lambda>k. str_contains k (lower ?q)) MEDIUM_RISK_KEYWORDS
    in keywords_found r = high @ medium
     \<and> risk_score r = min 100 (15 * int (length high) + 8 * int (length medium))
     \<and> (requires_alert r \<longleftrightarrow> risk_score r \<ge> 50)
     \<and> (risk_level r = ''HIGH'' \<longleftrightarrow> risk_score r \<ge> 50)
     \<and> (risk_level r = ''MEDIUM'' \<longleftrightarrow> 25 \<le> risk_score r \<and> risk_score r < 50)
     \<and> (risk_level r = ''LOW'' \<longleftrightarrow> risk_score r < 25))"
    using inst by (rule conjunct1)
  have r1: "keywords_found (analyze_query_risk ?q)
              = [''laundering'', ''money laundering'', ''cash'', ''structuring'']"
    and r2: "risk_score (analyze_query_risk ?q) = 46"
    and r3: "risk_level (analyze_query_risk ?q) = ''MEDIUM''"
    using general unfolding Let_def high medium by simp_all
  have found': "str_contains ''cash'' (lower ?Q)"
    using found unfolding cash low .
  show ?thesis
    by (intro conjI same found' r1 r2 r3)
qed

section \<open>Performance monitor\<close>

lemma py_index_in_range: "i < length xs \<Longrightarrow> py_index xs (int i) = Inr (xs ! i)"
  by (simp add: py_index_def)

lemma py_int_nonneg: "0 \<le> x \<Longrightarrow> py_int x = \<lfloor>x\<rfloor>"
  by (simp add: py_int_def)

lemma floor_pct: "\<lfloor>(of_int p / 100) * (of_nat n :: rat)\<rfloor> = (p * int n) div 100"
proof -
  have "(of_int p / 100) * (of_nat n :: rat) = of_int (p * int n) / of_int 100"
    by simp
  then show ?thesis
    by (simp only: floor_divide_of_int_eq)
qed

lemma min_int_nat:
  fixes k :: int and n :: nat
  assumes "0 < n" and "0 \<le> k"
  shows "min k (int n - 1) = int (min (nat k) (n - 1))"
proof (cases "k \<le> int n - 1")
  case True
  with assms have "nat k \<le> n - 1" by linarith
  with True assms show ?thesis by (simp add: min_def)
next
  case False
  with assms have "\<not> nat k \<le> n - 1" by linarith
  with False assms show ?thesis by (simp add: min_def)
qed

lemma percentile_nearest_rank:
  assumes "data \<noteq> []" and "0 \<le> pct"
  shows "percentile data pct =
           Inr (sort data ! min (nat ((pct * int (length data)) div 100)) (length data - 1))"
proof -
  let ?n = "length data"
  let ?k = "(pct * int ?n) div 100"
  have n: "0 < ?n" using assms(1) by simp
  have k: "0 \<le> ?k" using assms(2) by (simp add: pos_imp_zdiv_nonneg_iff)
  have "0 \<le> (of_int pct / 100) * (of_nat ?n :: rat)"
    using assms(2) by simp
  then have idx: "py_int ((of_int pct / 100) * of_nat ?n) = ?k"
    by (simp only: py_int_nonneg floor_pct)
  have m: "min ?k (int ?n - 1) = int (min (nat ?k) (?n - 1))"
    using n k by (rule min_int_nat)
  have "min (nat ?k) (?n - 1) \<le> ?n - 1"
    by (rule min.cobounded2)
  with n have "min (nat ?k) (?n - 1) < ?n"
    by linarith
  then have lt: "min (nat ?k) (?n - 1) < length (sort data)"
    by (simp only: length_sort)
  have "percentile data pct =
          py_index (sort data)
            (min (py_int ((of_int pct / 100) * of_nat (length (sort data))))
                 (int (length (sort data)) - 1))"
    using assms(1) by (simp only: percentile_def Let_def if_False)
  also have "\<dots> = py_index (sort data) (int (min (nat ?k) (?n - 1)))"
    by (simp only: length_sort idx m)
  also have "\<dots> = Inr (sort data ! min (nat ?k) (?n - 1))"
    by (rule py_index_in_range [OF lt])
  finally show ?thesis .
qed

lemma record_all_query_times:
  "length (query_times m) + length xs \<le> history_size m \<Longrightarrow>
     query_times (foldl record_query_time m xs) = query_times m @ xs
     \<and> history_size (foldl record_query_time m xs) = history_size m"
  by (induction xs arbitrary: m) (simp_all add: record_query_time_def deque_append_def)

lemma window_sorted: "sort window_1_to_100 = window_1_to_100"
proof -
  have "sorted_wrt (\<lambda>x y. (of_int x :: rat) \<le> of_int y) [1..100]"
    by (rule sorted_wrt_mono_rel [OF _ sorted_upto]) simp
  then have "sorted (map (of_int :: int \<Rightarrow> rat) [1..100])"
    by (simp add: sorted_map)
  then show ?thesis
    by (simp add: window_1_to_100_def sorted_sort_id)
qed

lemma window_length: "length window_1_to_100 = 100"
  by (simp add: window_1_to_100_def)

lemma window_nth: "window_1_to_100 ! 95 = 96" "window_1_to_100 ! 99 = 100"
  by (simp_all add: window_1_to_100_def)

lemma window_percentiles:
  "percentile window_1_to_100 95 = Inr 96" "percentile window_1_to_100 99 = Inr 100"
proof -
  have ne: "window_1_to_100 \<noteq> []"
    using window_length by auto
  show "percentile window_1_to_100 95 = Inr 96"
    using percentile_nearest_rank [OF ne, of 95]
    by (simp add: window_sorted window_length window_nth)
  show "percentile window_1_to_100 99 = Inr 100"
    using percentile_nearest_rank [OF ne, of 99]
    by (simp add: window_sorted window_length window_nth)
qed

lemma window_recorded:
  "query_times (foldl record_query_time (init_monitor 1000) window_1_to_100) = window_1_to_100"
  using record_all_query_times [of "init_monitor 1000" window_1_to_100]
  by (simp add: init_monitor_def window_length)

lemma py_round_integer: "py_round (of_int k) n = of_int k"
proof -
  have "(of_int k :: rat) * 10 ^ n = of_int (k * 10 ^ n)"
    by simp
  then have "round_half_even (of_int k * 10 ^ n) = k * 10 ^ n"
    by (simp only: round_half_even_def Let_def floor_of_int) simp
  then show ?thesis
    by (simp add: py_round_def)
qed

lemma sort_eq_Nil_iff: "sort xs = [] \<longleftrightarrow> xs = []"
  by (metis length_0_conv length_sort)

lemma statistics_median_total:
  assumes "data \<noteq> []"
  shows "\<exists>md. statistics_median data = Inr md"
proof -
  have n: "length (sort data) \<noteq> 0"
    using assms by simp
  show ?thesis
  proof (cases "length (sort data) mod 2 = 1")
    case True
    with n have "statistics_median data = Inr (sort data ! (length (sort data) div 2))"
      by (simp only: statistics_median_def Let_def if_False if_True simp_thms)
    then show ?thesis ..
  next
    case False
    with n have "statistics_median data =
        Inr ((sort data ! (length (sort data) div 2 - 1)
              + sort data ! (length (sort data) div 2)) / 2)"
      by (simp only: statistics_median_def Let_def if_False if_True simp_thms)
    then show ?thesis ..
  qed
qed

lemma query_time_metrics_percentiles:
  assumes "query_times m \<noteq> []"
  shows "\<exists>st. query_time_metrics m = Inr (Some st)
           \<and> (\<forall>v. percentile (query_times m) 95 = Inr v \<longrightarrow> p95 st = py_round v 3)
           \<and> (\<forall>v. percentile (query_times m) 99 = Inr v \<longrightarrow> p99 st = py_round v 3)"
proof -
  let ?qt = "query_times m"
  obtain v95 where v95: "percentile ?qt 95 = Inr v95"
    using percentile_nearest_rank [OF assms, of 95] by simp
  obtain v99 where v99: "percentile ?qt 99 = Inr v99"
    using percentile_nearest_rank [OF assms, of 99] by simp
  have mean: "statistics_mean ?qt = Inr (sum_list ?qt / of_nat (length ?qt))"
    using assms by (simp add: statistics_mean_def)
  obtain md where md: "statistics_median ?qt = Inr md"
    using statistics_median_total [OF assms] by blast
  show ?thesis
    using assms by (simp add: query_time_metrics_def Let_def mean md v95 v99)
qed

text \<open>
  \<^bold>\<open>C9.\<close> For every monitor whose window of query durations is not empty, the 95th and
  the 99th percentile are the samples at the indices \<open>min (floor (95/100 * n)) (n - 1)\<close>
  and \<open>min (floor (99/100 * n)) (n - 1)\<close> of the window sorted in ascending order, where
  \<open>n\<close> is the number of samples; \<^verbatim>\<open>get_metrics\<close> reports both rounded to three
  decimals. For the window 1, 2, ..., 100 the 95th percentile is 96 (sorted index 95)
  and the 99th is 100 (sorted index 99), also as reported after recording these hundred
  durations in a fresh monitor. The product \<open>percentile / 100 * n\<close> is taken exactly.
\<close>

theorem percentile_p95_p99_nearest_rank:
  "(query_times m \<noteq> [] \<longrightarrow>
      (let data = query_times m; n = length data; s = sort data;
           i95 = min (nat \<lfloor>(95 / 100 :: rat) * of_nat n\<rfloor>) (n - 1);
           i99 = min (nat \<lfloor>(99 / 100 :: rat) * of_nat n\<rfloor>) (n - 1)
       in sorted s \<and> set s = set data \<and> length s = n
        \<and> percentile data 95 = Inr (s ! i95)
        \<and> percentile data 99 = Inr (s ! i99)
        \<and> (case query_time_metrics m of
              Inr (Some st) \<Rightarrow> p95 st = py_round (s ! i95) 3 \<and> p99 st = py_round (s ! i99) 3
            | _ \<Rightarrow> False)))
   \<and> sort window_1_to_100 ! 95 = 96
   \<and> sort window_1_to_100 ! 99 = 100
   \<and> percentile window_1_to_100 95 = Inr 96
   \<and> percentile window_1_to_100 99 = Inr 100
   \<and> (case query_time_metrics (foldl record_query_time (init_monitor 1000) window_1_to_100) of
         Inr (Some st) \<Rightarrow> p95 st = 96 \<and> p99 st = 100
       | _ \<Rightarrow> False)"
proof -
  have general: "query_times m \<noteq> [] \<longrightarrow>
      (let data = query_times m; n = length data; s = sort data;
           i95 = min (nat \<lfloor>(95 / 100 :: rat) * of_nat n\<rfloor>) (n - 1);
           i99 = min (nat \<lfloor>(99 / 100 :: rat) * of_nat n\<rfloor>) (n - 1)
       in sorted s \<and> set s = set data \<and> length s = n
        \<and> percentile data 95 = Inr (s ! i95)
        \<and> percentile data 99 = Inr (s ! i99)
        \<and> (case query_time_metrics m of
              Inr (Some st) \<Rightarrow> p95 st = py_round (s ! i95) 3 \<and> p99 st = py_round (s ! i99) 3
            | _ \<Rightarrow> False))"
  proof
    assume ne: "query_times m \<noteq> []"
    let ?data = "query_times m"
    have f95: "\<lfloor>(95 / 100 :: rat) * of_nat (length ?data)\<rfloor> = (95 * int (length ?data)) div 100"
      using floor_pct [of 95 "length ?data"] by simp
    have f99: "\<lfloor>(99 / 100 :: rat) * of_nat (length ?data)\<rfloor> = (99 * int (length ?data)) div 100"
      using floor_pct [of 99 "length ?data"] by simp
    note p95 = percentile_nearest_rank [OF ne, of 95, simplified]
    note p99 = percentile_nearest_rank [OF ne, of 99, simplified]
    obtain st where st: "query_time_metrics m = Inr (Some st)"
      and s95: "\<forall>v. percentile ?data 95 = Inr v \<longrightarrow> p95 st = py_round v 3"
      and s99: "\<forall>v. percentile ?data 99 = Inr v \<longrightarrow> p99 st = py_round v 3"
      using query_time_metrics_percentiles [OF ne] by blast
    show "let data = query_times m; n = length data; s = sort data;
           i95 = min (nat \<lfloor>(95 / 100 :: rat) * of_nat n\<rfloor>) (n - 1);
           i99 = min (nat \<lfloor>(99 / 100 :: rat) * of_nat n\<rfloor>) (n - 1)
       in sorted s \<and> set s = set data \<and> length s = n
        \<and> percentile data 95 = Inr (s ! i95)
        \<and> percentile data 99 = Inr (s ! i99)
        \<and> (case query_time_metrics m of
              Inr (Some st) \<Rightarrow> p95 st = py_round (s ! i95) 3 \<and> p99 st = py_round (s ! i99) 3
            | _ \<Rightarrow> False)"
      unfolding Let_def f95 f99
      using p95 p99 s95 s99 by (simp add: st)
  qed
  let ?m = "foldl record_query_time (init_monitor 1000) window_1_to_100"
  have ne: "query_times ?m \<noteq> []"
    using window_length by (auto simp: window_recorded)
  obtain st where st: "query_time_metrics ?m = Inr (Some st)"
    and s95: "\<forall>v. percentile (query_times ?m) 95 = Inr v \<longrightarrow> p95 st = py_round v 3"
    and s99: "\<forall>v. percentile (query_times ?m) 99 = Inr v \<longrightarrow> p99 st = py_round v 3"
    using query_time_metrics_percentiles [OF ne] by blast
  have r96: "py_round 96 3 = 96" and r100: "py_round 100 3 = 100"
    using py_round_integer [of 96 3] py_round_integer [of 100 3] by simp_all
  have reported: "case query_time_metrics ?m of
         Inr (Some st) \<Rightarrow> p95 st = 96 \<and> p99 st = 100 | _ \<Rightarrow> False"
    using s95 s99 by (simp add: st window_recorded window_percentiles r96 r100)
  have sorted_nth: "sort window_1_to_100 ! 95 = 96" "sort window_1_to_100 ! 99 = 100"
    by (simp_all add: window_sorted window_nth)
  show ?thesis
    by (intro conjI [OF general] conjI [OF sorted_nth(1)] conjI [OF sorted_nth(2)]
        conjI [OF window_percentiles(1)] conjI [OF window_percentiles(2)] reported)
qed

theorem percentile_p95_p99_nearest_rank_witness:
  "percentile [3 / 2, 1 / 4, 1 / 2] 95 = Inr (3 / 2)
   \<and> percentile [3 / 2, 1 / 4, 1 / 2] 99 = Inr (3 / 2)
   \<and> (case query_time_metrics
             \<lparr> history_size = 1000, query_times = [3 / 2, 1 / 4, 1 / 2], embedding_times = [],
               search_times = [], llm_times = [], total_queries = 3, cache_hits = 0,
               cache_misses = 0 \<rparr> of
         Inr (Some st) \<Rightarrow> p95 st = 3 / 2 \<and> p99 st = 3 / 2
       | _ \<Rightarrow> False)"
proof -
  let ?m = "\<lparr> history_size = 1000, query_times = [3 / 2, 1 / 4, 1 / 2 :: rat],
              embedding_times = [], search_times = [], llm_times = [], total_queries = 3,
              cache_hits = 0, cache_misses = 0 \<rparr>"
  have ne: "query_times ?m \<noteq> []" by simp
  have srt: "sort [3 / 2, 1 / 4, 1 / 2 :: rat] = [1 / 4, 1 / 2, 3 / 2]" by simp
  have rnd: "py_round (3 / 2) 3 = 3 / 2"
    by (simp add: py_round_def round_half_even_def)
  have inst: "let data = query_times ?m; n = length data; s = sort data;
           i95 = min (nat \<lfloor>(95 / 100 :: rat) * of_nat n\<rfloor>) (n - 1);
           i99 = min (nat \<lfloor>(99 / 100 :: rat) * of_nat n\<rfloor>) (n - 1)
       in sorted s \<and> set s = set data \<and> length s = n
        \<and> percentile data 95 = Inr (s ! i95)
        \<and> percentile data 99 = Inr (s ! i99)
        \<and> (case query_time_metrics ?m of
              Inr (Some st) \<Rightarrow> p95 st = py_round (s ! i95) 3 \<and> p99 st = py_round (s ! i99) 3
            | _ \<Rightarrow> False)"
    using percentile_p95_p99_nearest_rank [of ?m] ne by (elim conjE impE)
  show ?thesis
    using inst by (simp add: Let_def srt rnd split: sum.splits option.splits)
qed

section \<open>Audit logger\<close>

lemma file_lines_from_line:
  "newline \<notin> set l \<Longrightarrow>
     file_lines_from cur (l @ newline # rest) = (cur @ l @ [newline]) # file_lines_from [] rest"
  by (induction l arbitrary: cur) auto

lemma file_lines_line:
  "newline \<notin> set l \<Longrightarrow> file_lines (l @ newline # rest) = (l @ [newline]) # file_lines rest"
  by (simp add: file_lines_def file_lines_from_line)

lemma file_lines_empty: "file_lines [] = []"
  by (simp add: file_lines_def)

lemma strip_line:
  assumes "s \<noteq> []" and "\<not> is_space (hd s)" and "\<not> is_space (last s)"
  shows "strip (s @ [newline]) = s"
proof -
  have nl: "is_space newline"
    by (simp add: is_space_def newline_def)
  have front: "dropWhile is_space (s @ [newline]) = s @ [newline]"
    using assms(1,2) by (cases s) simp_all
  have "rev (s @ [newline]) = newline # rev s"
    by simp
  moreover have "dropWhile is_space (rev s) = rev s"
    using assms(1,3) by (cases "rev s") (simp_all add: last_rev hd_rev flip: hd_rev)
  ultimately have "dropWhile is_space (rev (s @ [newline])) = rev s"
    using nl by simp
  then show ?thesis
    by (simp add: strip_def front)
qed

lemma read_entries_unfiltered:
  "read_entries loads None acc lines
     = Inr (acc @ List.map_filter (\<lambda>line. loads (strip line)) lines)"
  by (induction lines arbitrary: acc) (simp_all add: map_filter_simps split: option.splits)

lemma py_slice_last_all:
  "int (length entries) \<le> limit \<Longrightarrow> py_slice_last entries limit = entries"
  by (cases "limit = 0") (simp_all add: py_slice_last_def Let_def max_def)

lemma py_slice_last_drop:
  "0 < limit \<Longrightarrow> py_slice_last entries limit = drop (length entries - nat limit) entries"
proof -
  assume pos: "0 < limit"
  have "nat (max (- limit + int (length entries)) 0) = length entries - nat limit"
    using pos by (simp add: max_def) linarith
  with pos show ?thesis
    by (simp add: py_slice_last_def Let_def)
qed

lemma apply_op_text:
  "apply_op dumps lf fs op = fs(lf \<mapsto> file_text fs lf @ op_text dumps op)"
  by (cases op) (simp_all add: write_log_def)

lemma apply_ops_text:
  "file_text (foldl (apply_op dumps lf) fs ops) lf
     = file_text fs lf @ concat (map (op_text dumps) ops)"
  by (induction ops arbitrary: fs) (simp_all add: apply_op_text file_text_def)

lemma apply_ops_exists:
  "ops \<noteq> [] \<Longrightarrow> foldl (apply_op dumps lf) fs ops lf \<noteq> None"
proof (induction ops arbitrary: fs rule: rev_induct)
  case Nil
  then show ?case by simp
next
  case (snoc op ops)
  show ?case by (simp add: apply_op_text)
qed

lemma apply_ops_other:
  "path \<noteq> lf \<Longrightarrow> foldl (apply_op dumps lf) fs ops path = fs path"
  by (induction ops arbitrary: fs) (simp_all add: apply_op_text)

lemma op_text_line:
  assumes "valid_op dumps loads op"
  shows "\<exists>l. op_text dumps op = l @ [newline] \<and> newline \<notin> set l"
  using assms by (cases op) (simp_all add: well_formed_def malformed_def)

lemma ops_lines:
  "\<forall>op \<in> set ops. valid_op dumps loads op \<Longrightarrow>
     file_lines (concat (map (op_text dumps) ops)) = map (op_text dumps) ops"
proof (induction ops)
  case Nil
  then show ?case by (simp add: file_lines_empty)
next
  case (Cons op ops)
  then obtain l where l: "op_text dumps op = l @ [newline]" "newline \<notin> set l"
    using op_text_line [of dumps loads op] by auto
  have "file_lines (concat (map (op_text dumps) (op # ops)))
          = file_lines (l @ newline # concat (map (op_text dumps) ops))"
    by (simp add: l)
  also have "\<dots> = (l @ [newline]) # file_lines (concat (map (op_text dumps) ops))"
    by (rule file_lines_line [OF l(2)])
  finally show ?case
    using Cons by (simp add: l)
qed

lemma op_text_parse:
  assumes "valid_op dumps loads op"
  shows "loads (strip (op_text dumps op))
           = (case op of Append entry \<Rightarrow> Some entry | Inject line \<Rightarrow> None)"
proof (cases op)
  case (Append entry)
  with assms have wf: "well_formed dumps loads entry" by simp
  then have "strip (dumps entry @ [newline]) = dumps entry"
    by (intro strip_line) (simp_all add: well_formed_def)
  with wf Append show ?thesis
    by (simp add: well_formed_def)
next
  case (Inject line)
  with assms show ?thesis
    by (simp add: malformed_def)
qed

lemma ops_parse:
  "\<forall>op \<in> set ops. valid_op dumps loads op \<Longrightarrow>
     List.map_filter (\<lambda>line. loads (strip line)) (map (op_text dumps) ops) = appended ops"
proof (induction ops)
  case Nil
  then show ?case by (simp add: map_filter_simps)
next
  case (Cons op ops)
  then have "valid_op dumps loads op" by simp
  from op_text_parse [OF this] Cons show ?case
    by (cases op) (simp_all add: map_filter_simps)
qed

lemma appended_map_Append: "appended (map Append es) = es"
  by (induction es) simp_all

lemma read_log_missing: "fs lf = None \<Longrightarrow> read_log loads fs lf user_id limit = Inr []"
  by (simp add: read_log_def)

lemma read_log_after_ops:
  assumes valid: "\<forall>op \<in> set ops. valid_op dumps loads op"
    and empty: "fs lf = None \<or> fs lf = Some []"
  shows "read_log loads (foldl (apply_op dumps lf) fs ops) lf None limit
           = Inr (py_slice_last (appended ops) limit)"
proof (cases "ops = []")
  case True
  with empty show ?thesis
    by (auto simp: read_log_def file_lines_empty py_slice_last_def)
next
  case False
  let ?fs = "foldl (apply_op dumps lf) fs ops"
  from empty have "file_text fs lf = []"
    by (auto simp: file_text_def)
  then have content: "file_text ?fs lf = concat (map (op_text dumps) ops)"
    by (simp add: apply_ops_text)
  from apply_ops_exists [OF False] obtain t where t: "?fs lf = Some t"
    by blast
  with content have "t = concat (map (op_text dumps) ops)"
    by (simp add: file_text_def)
  then have "read_entries loads None [] (file_lines t) = Inr (appended ops)"
    by (simp add: read_entries_unfiltered ops_lines [OF valid] ops_parse [OF valid])
  with t show ?thesis
    by (simp add: read_log_def)
qed

lemma log_functions_append:
  "snd (log_query md5_hex dumps self fs now_str now_iso user_id query answer sources confidence
          risk metadata)
     = apply_op dumps (query_log_file self) fs
         (Append (query_log_entry (generate_id md5_hex [query, user_id] now_str) now_iso user_id
                    query answer sources confidence risk metadata))"
  "log_access dumps self fs now_iso user_id action resource status_text metadata
     = apply_op dumps (access_log_file self) fs
         (Append (access_log_entry now_iso user_id action resource status_text metadata))"
  "snd (log_alert md5_hex dumps self fs now_str now_iso alert_type severity message query_id
          alert_user metadata)
     = apply_op dumps (alert_log_file self) fs
         (Append (alert_log_entry (generate_id md5_hex [message, alert_type] now_str) now_iso
                    alert_type severity message query_id alert_user metadata))"
  "log_document_upload dumps self fs now_iso user_id filename file_size file_type chunks_created
     status_text
     = apply_op dumps (document_log_file self) fs
         (Append (document_log_entry now_iso user_id filename file_size file_type chunks_created
                    status_text))"
  by (simp_all add: log_query_def log_access_def log_alert_def log_document_upload_def Let_def)



lemma query_log_entry_preview:
  "json_get (query_log_entry qid now_iso user_id query answer sources confidence risk metadata)
     ''answer_preview''
   = Inr (Some (JStr (if length answer > 200 then take 200 answer @ ''...'' else answer)))"
  by (simp add: query_log_entry_def json_get_def)

lemma query_log_entry_length:
  "json_get (query_log_entry qid now_iso user_id query answer sources confidence risk metadata)
     ''answer_length''
   = Inr (Some (JInt (int (length answer))))"
  by (simp add: query_log_entry_def json_get_def)

lemma query_log_entry_same_preview:
  assumes "200 < length answer" and "length answer' = length answer"
    and "take 200 answer' = take 200 answer"
  shows "query_log_entry qid now_iso user_id query answer' sources confidence risk metadata
           = query_log_entry qid now_iso user_id query answer sources confidence risk metadata"
  using assms by (simp add: query_log_entry_def)

lemma log_query_unfold:
  "log_query md5_hex dumps self fs now_str now_iso user_id query answer sources confidence risk
     metadata
   = (generate_id md5_hex [query, user_id] now_str,
      write_log dumps fs (query_log_file self)
        (query_log_entry (generate_id md5_hex [query, user_id] now_str) now_iso user_id query
           answer sources confidence risk metadata))"
  by (simp add: log_query_def Let_def)

text \<open>
  \<^bold>\<open>C10.\<close> \<^verbatim>\<open>log_query\<close> appends to the query partition one line, the serialisation of
  the record built from its arguments. In that record \<^verbatim>\<open>answer_length\<close> is the length of
  the whole answer; \<^verbatim>\<open>answer_preview\<close> is the first 200 characters of the answer followed
  by \<^verbatim>\<open>...\<close> when the answer is longer than 200 characters, and the answer itself
  otherwise. The record holds nothing else of the answer: two answers longer than 200
  characters with the same length and the same first 200 characters give the same
  identifier, the same record and the same file.
\<close>

theorem log_query_answer_preview:
  "(let entry = query_log_entry (generate_id md5_hex [query, user_id] now_str) now_iso user_id
                  query answer sources confidence risk metadata;
        result = log_query md5_hex dumps self fs now_str now_iso user_id query answer sources
                   confidence risk metadata
    in snd result = write_log dumps fs (query_log_file self) entry
     \<and> file_text (snd result) (query_log_file self)
         = file_text fs (query_log_file self) @ dumps entry @ [newline]
     \<and> json_get entry ''answer_length'' = Inr (Some (JInt (int (length answer))))
     \<and> (200 < length answer \<longrightarrow>
          json_get entry ''answer_preview'' = Inr (Some (JStr (take 200 answer @ ''...''))))
     \<and> (length answer \<le> 200 \<longrightarrow>
          json_get entry ''answer_preview'' = Inr (Some (JStr answer)))
     \<and> (\<forall>answer'. 200 < length answer \<and> length answer' = length answer
                    \<and> take 200 answer' = take 200 answer \<longrightarrow>
          log_query md5_hex dumps self fs now_str now_iso user_id query answer' sources
            confidence risk metadata = result))"
proof -
  let ?qid = "generate_id md5_hex [query, user_id] now_str"
  let ?entry = "query_log_entry ?qid now_iso user_id query answer sources confidence risk metadata"
  let ?result = "log_query md5_hex dumps self fs now_str now_iso user_id query answer sources
                   confidence risk metadata"
  have written: "snd ?result = write_log dumps fs (query_log_file self) ?entry"
    by (simp add: log_query_unfold)
  have content: "file_text (snd ?result) (query_log_file self)
                  = file_text fs (query_log_file self) @ dumps ?entry @ [newline]"
    by (simp add: log_query_unfold write_log_def file_text_def)
  have long: "200 < length answer \<longrightarrow>
      json_get ?entry ''answer_preview'' = Inr (Some (JStr (take 200 answer @ ''...'')))"
    by (simp add: query_log_entry_preview)
  have short: "length answer \<le> 200 \<longrightarrow> json_get ?entry ''answer_preview'' = Inr (Some (JStr answer))"
    by (simp add: query_log_entry_preview)
  have same: "\<forall>answer'. 200 < length answer \<and> length answer' = length answer
                    \<and> take 200 answer' = take 200 answer \<longrightarrow>
          log_query md5_hex dumps self fs now_str now_iso user_id query answer' sources
            confidence risk metadata = ?result"
  proof (intro allI impI)
    fix answer'
    assume h: "200 < length answer \<and> length answer' = length answer
                 \<and> take 200 answer' = take 200 answer"
    then have e: "query_log_entry ?qid now_iso user_id query answer' sources confidence risk
                    metadata = ?entry"
      by (intro query_log_entry_same_preview) simp_all
    show "log_query md5_hex dumps self fs now_str now_iso user_id query answer' sources
            confidence risk metadata = ?result"
      by (simp only: log_query_unfold e)
  qed
  show ?thesis
    unfolding Let_def
    by (intro conjI [OF written] conjI [OF content] conjI [OF query_log_entry_length]
        conjI [OF long] conjI [OF short] same)
qed

theorem log_query_answer_preview_witness:
  "\<forall>md5_hex dumps.
     log_query md5_hex dumps (AuditLogger ''./audit_logs'') Map.empty
       ''2024-05-01 09:30:00.000001'' ''2024-05-01T09:30:00.000002'' ''user123''
       ''What are KYC requirements?'' (replicate 200 CHR ''a'' @ ''b'') [] (9 / 10) 15 None
     = log_query md5_hex dumps (AuditLogger ''./audit_logs'') Map.empty
       ''2024-05-01 09:30:00.000001'' ''2024-05-01T09:30:00.000002'' ''user123''
       ''What are KYC requirements?'' (replicate 200 CHR ''a'' @ ''c'') [] (9 / 10) 15 None
   \<and> json_get (query_log_entry
         (generate_id md5_hex [''What are KYC requirements?'', ''user123'']
            ''2024-05-01 09:30:00.000001'')
         ''2024-05-01T09:30:00.000002'' ''user123'' ''What are KYC requirements?''
         (replicate 200 CHR ''a'' @ ''c'') [] (9 / 10) 15 None) ''answer_preview''
       = Inr (Some (JStr (replicate 200 CHR ''a'' @ ''...'')))
   \<and> json_get (query_log_entry
         (generate_id md5_hex [''What are KYC requirements?'', ''user123'']
            ''2024-05-01 09:30:00.000001'')
         ''2024-05-01T09:30:00.000002'' ''user123'' ''What are KYC requirements?''
         (replicate 200 CHR ''a'' @ ''c'') [] (9 / 10) 15 None) ''answer_length''
       = Inr (Some (JInt 201))"
proof (intro allI)
  fix md5_hex :: "string \<Rightarrow> string" and dumps :: json_dumps
  let ?ans = "replicate 200 CHR ''a'' @ ''c''"
  let ?ans' = "replicate 200 CHR ''a'' @ ''b''"
  let ?qid = "generate_id md5_hex [''What are KYC requirements?'', ''user123'']
                ''2024-05-01 09:30:00.000001''"
  let ?entry = "query_log_entry ?qid ''2024-05-01T09:30:00.000002'' ''user123''
                  ''What are KYC requirements?'' ?ans [] (9 / 10) 15 None"
  note inst = log_query_answer_preview
    [of md5_hex "''What are KYC requirements?''" "''user123''" "''2024-05-01 09:30:00.000001''"
        "''2024-05-01T09:30:00.000002''" ?ans "[]" "9 / 10" 15 None dumps
        "AuditLogger ''./audit_logs''" Map.empty, unfolded Let_def]
  have len: "200 < length ?ans" "length ?ans' = length ?ans" "take 200 ?ans' = take 200 ?ans"
    by simp_all
  from inst have "\<forall>answer'. 200 < length ?ans \<and> length answer' = length ?ans
                    \<and> take 200 answer' = take 200 ?ans \<longrightarrow>
          log_query md5_hex dumps (AuditLogger ''./audit_logs'') Map.empty
            ''2024-05-01 09:30:00.000001'' ''2024-05-01T09:30:00.000002'' ''user123''
            ''What are KYC requirements?'' answer' [] (9 / 10) 15 None
          = log_query md5_hex dumps (AuditLogger ''./audit_logs'') Map.empty
            ''2024-05-01 09:30:00.000001'' ''2024-05-01T09:30:00.000002'' ''user123''
            ''What are KYC requirements?'' ?ans [] (9 / 10) 15 None"
    by (elim conjE)
  with len have same: "log_query md5_hex dumps (AuditLogger ''./audit_logs'') Map.empty
            ''2024-05-01 09:30:00.000001'' ''2024-05-01T09:30:00.000002'' ''user123''
            ''What are KYC requirements?'' ?ans' [] (9 / 10) 15 None
          = log_query md5_hex dumps (AuditLogger ''./audit_logs'') Map.empty
            ''2024-05-01 09:30:00.000001'' ''2024-05-01T09:30:00.000002'' ''user123''
            ''What are KYC requirements?'' ?ans [] (9 / 10) 15 None"
    by blast
  from inst have "200 < length ?ans \<longrightarrow>
      json_get ?entry ''answer_preview'' = Inr (Some (JStr (take 200 ?ans @ ''...'')))"
    by (elim conjE)
  with len(1) have preview: "json_get ?entry ''answer_preview''
      = Inr (Some (JStr (replicate 200 CHR ''a'' @ ''...'')))"
    by simp
  from inst have "json_get ?entry ''answer_length'' = Inr (Some (JInt (int (length ?ans))))"
    by (elim conjE)
  then have length: "json_get ?entry ''answer_length'' = Inr (Some (JInt 201))"
    by simp
  show "log_query md5_hex dumps (AuditLogger ''./audit_logs'') Map.empty
       ''2024-05-01 09:30:00.000001'' ''2024-05-01T09:30:00.000002'' ''user123''
       ''What are KYC requirements?'' ?ans' [] (9 / 10) 15 None
     = log_query md5_hex dumps (AuditLogger ''./audit_logs'') Map.empty
       ''2024-05-01 09:30:00.000001'' ''2024-05-01T09:30:00.000002'' ''user123''
       ''What are KYC requirements?'' ?ans [] (9 / 10) 15 None
   \<and> json_get ?entry ''answer_preview'' = Inr (Some (JStr (replicate 200 CHR ''a'' @ ''...'')))
   \<and> json_get ?entry ''answer_length'' = Inr (Some (JInt 201))"
    by (intro conjI same preview length)
qed

lemma generate_id_unfold:
  "generate_id md5_hex args now_str = take 12 (md5_hex (concat args @ now_str))"
  by (simp add: generate_id_def Let_def)

lemma generate_id_collision:
  "\<exists>c1 c2. c1 \<noteq> c2 \<and> generate_id md5_hex [c1] now_str = generate_id md5_hex [c2] now_str"
proof (rule ccontr)
  assume "\<not> ?thesis"
  then have inj: "inj (\<lambda>c. generate_id md5_hex [c] now_str)"
    by (auto simp: inj_on_def)
  have "range (\<lambda>c. generate_id md5_hex [c] now_str) \<subseteq> {s. set s \<subseteq> UNIV \<and> length s \<le> 12}"
    by (auto simp: generate_id_unfold)
  moreover have "finite {s :: string. set s \<subseteq> UNIV \<and> length s \<le> 12}"
    by (rule finite_lists_length_le) simp
  ultimately have "finite (range (\<lambda>c. generate_id md5_hex [c] now_str))"
    by (rule finite_subset)
  from this inj have "finite (UNIV :: string set)"
    by (rule finite_imageD)
  then show False
    using infinite_UNIV_listI by blast
qed

lemma card_hex_digits: "card hex_digits = 16"
  by (simp add: hex_digits_def)

lemma hex_prefix_count:
  "card {s. set s \<subseteq> hex_digits \<and> length s \<le> 12} = (\<Sum>i\<le>12. 16 ^ i)"
proof -
  have "finite hex_digits"
    by (simp add: hex_digits_def)
  from card_lists_length_le [OF this, of 12] show ?thesis
    by (simp only: card_hex_digits)
qed

lemma hex_prefix_finite: "finite {s. set s \<subseteq> hex_digits \<and> length s \<le> 12}"
  by (rule finite_lists_length_le) (simp add: hex_digits_def)

lemma sum16: "(\<Sum>i\<le>12. (16::nat) ^ i) = 300239975158033"
  by (simp add: atMost_nat_numeral)

lemma new_year_times_card:
  "card (new_year_time ` ({1..9999} \<times> {..<24} \<times> {..<60} \<times> {..<60} \<times> {1..<1000000}))
     = 9999 * 24 * 60 * 60 * 999999"
proof -
  have "inj new_year_time"
    by (auto simp: inj_on_def new_year_time_def)
  then have "inj_on new_year_time ({1..9999} \<times> {..<24} \<times> {..<60} \<times> {..<60} \<times> {1..<1000000})"
    by (rule inj_on_subset) simp
  then show ?thesis
    by (simp add: card_image card_cartesian_product)
qed

lemma new_year_times_valid:
  "t \<in> new_year_time ` ({1..9999} \<times> {..<24} \<times> {..<60} \<times> {..<60} \<times> {1..<1000000})
     \<Longrightarrow> valid_datetime t"
  by (auto simp: new_year_time_def valid_datetime_def days_in_month_def)

lemma generate_id_timestamp_collision:
  assumes hex: "\<forall>x. set (md5_hex x) \<subseteq> hex_digits"
  shows "\<exists>t1 t2. valid_datetime t1 \<and> valid_datetime t2 \<and> t1 \<noteq> t2
           \<and> generate_id md5_hex args (str_datetime t1) = generate_id md5_hex args (str_datetime t2)"
proof (rule ccontr)
  assume no: "\<not> ?thesis"
  let ?T = "new_year_time ` ({1..9999} \<times> {..<24} \<times> {..<60} \<times> {..<60} \<times> {1..<1000000})"
  let ?g = "\<lambda>t. generate_id md5_hex args (str_datetime t)"
  let ?H = "{s. set s \<subseteq> hex_digits \<and> length s \<le> 12}"
  have inj: "inj_on ?g ?T"
  proof (rule inj_onI)
    fix t1 t2 assume "t1 \<in> ?T" "t2 \<in> ?T" "?g t1 = ?g t2"
    with no new_year_times_valid [of t1] new_year_times_valid [of t2] show "t1 = t2"
      by blast
  qed
  have sub: "?g ` ?T \<subseteq> ?H"
  proof
    fix s assume "s \<in> ?g ` ?T"
    then obtain t where s: "s = take 12 (md5_hex (concat args @ str_datetime t))"
      by (auto simp: generate_id_unfold)
    have "set s \<subseteq> set (md5_hex (concat args @ str_datetime t))"
      unfolding s by (rule set_take_subset)
    with hex show "s \<in> ?H"
      by (auto simp: s)
  qed
  have "card ?T = card (?g ` ?T)"
    using inj by (simp add: card_image)
  also have "\<dots> \<le> card ?H"
    using sub hex_prefix_finite by (rule card_mono [rotated])
  finally show False
    by (simp only: new_year_times_card hex_prefix_count sum16)
qed

text \<open>
  \<^bold>\<open>C5\<close>, as stated, does not hold, whatever the hash function. An identifier has at
  most twelve characters, so there are finitely many identifiers and infinitely many
  contents: no function gives different identifiers to all different contents at a given
  instant. And there are more instants (microseconds of the years 1 to 9999) than
  identifiers of at most twelve hexadecimal digits: no function with hexadecimal digests
  gives different identifiers to the same content at all different instants.
\<close>

theorem generate_id_no_collision_free_hash:
  "\<not> (\<exists>md5_hex. \<forall>args1 args2 t.
          valid_datetime t \<and> concat args1 \<noteq> concat args2 \<longrightarrow>
          generate_id md5_hex args1 (str_datetime t) \<noteq> generate_id md5_hex args2 (str_datetime t))
   \<and> \<not> (\<exists>md5_hex. (\<forall>x. set (md5_hex x) \<subseteq> hex_digits)
          \<and> (\<forall>args t1 t2.
                valid_datetime t1 \<and> valid_datetime t2 \<and> t1 \<noteq> t2 \<longrightarrow>
                generate_id md5_hex args (str_datetime t1)
                  \<noteq> generate_id md5_hex args (str_datetime t2)))"
proof (intro conjI notI)
  assume "\<exists>md5_hex. \<forall>args1 args2 t.
          valid_datetime t \<and> concat args1 \<noteq> concat args2 \<longrightarrow>
          generate_id md5_hex args1 (str_datetime t) \<noteq> generate_id md5_hex args2 (str_datetime t)"
  then obtain md5_hex where free: "\<And>args1 args2 t.
      valid_datetime t \<Longrightarrow> concat args1 \<noteq> concat args2 \<Longrightarrow>
      generate_id md5_hex args1 (str_datetime t) \<noteq> generate_id md5_hex args2 (str_datetime t)"
    by blast
  let ?t = "\<lparr> year = 2024, month = 5, day = 1, hour = 9, minute = 30, second = 0,
               microsecond = 1 \<rparr>"
  have valid: "valid_datetime ?t"
    by (simp add: valid_datetime_def days_in_month_def)
  obtain c1 c2 where c: "c1 \<noteq> c2"
      "generate_id md5_hex [c1] (str_datetime ?t) = generate_id md5_hex [c2] (str_datetime ?t)"
    using generate_id_collision [of md5_hex "str_datetime ?t"] by blast
  from c(1) have "concat [c1] \<noteq> concat [c2]"
    by simp
  from free [OF valid this] c(2) show False
    by blast
next
  assume "\<exists>md5_hex. (\<forall>x. set (md5_hex x) \<subseteq> hex_digits)
          \<and> (\<forall>args t1 t2.
                valid_datetime t1 \<and> valid_datetime t2 \<and> t1 \<noteq> t2 \<longrightarrow>
                generate_id md5_hex args (str_datetime t1)
                  \<noteq> generate_id md5_hex args (str_datetime t2))"
  then obtain md5_hex where hex: "\<forall>x. set (md5_hex x) \<subseteq> hex_digits"
    and free: "\<And>args t1 t2. valid_datetime t1 \<Longrightarrow> valid_datetime t2 \<Longrightarrow> t1 \<noteq> t2 \<Longrightarrow>
      generate_id md5_hex args (str_datetime t1) \<noteq> generate_id md5_hex args (str_datetime t2)"
    by blast
  from generate_id_timestamp_collision [OF hex, of "[]"] free show False
    by blast
qed

text \<open>
  \<^bold>\<open>C5\<close>, amended. An identifier is the first twelve characters of the digest of the
  hashed input, and the hashed input is the concatenation of the arguments followed by
  the text of the current time. So a different timestamp with the same content, and a
  different content with the same timestamp, give a different hashed input; the same
  concatenated content at the same timestamp gives the same identifier; and two
  identifiers differ only if their hashed inputs differ. Distinct identifiers are not
  guaranteed: two different contents with the same identifier exist at every timestamp.
  The arguments are concatenated without separator, so the arguments \<^verbatim>\<open>ab\<close>, \<^verbatim>\<open>c\<close> and the
  arguments \<^verbatim>\<open>a\<close>, \<^verbatim>\<open>bc\<close> have the same identifier at the same instant.
\<close>

theorem generate_id_salted_digest_prefix:
  "generate_id md5_hex args now_str = take 12 (md5_hex (concat args @ now_str))
   \<and> length (generate_id md5_hex args now_str) \<le> 12
   \<and> (\<forall>args'. concat args' = concat args \<longrightarrow>
         generate_id md5_hex args' now_str = generate_id md5_hex args now_str)
   \<and> (\<forall>now'. now' \<noteq> now_str \<longrightarrow> concat args @ now' \<noteq> concat args @ now_str)
   \<and> (\<forall>args'. concat args' \<noteq> concat args \<longrightarrow>
         concat args' @ now_str \<noteq> concat args @ now_str)
   \<and> (\<forall>args' now'.
         generate_id md5_hex args' now' \<noteq> generate_id md5_hex args now_str \<longrightarrow>
         concat args' @ now' \<noteq> concat args @ now_str)
   \<and> (\<exists>c1 c2. c1 \<noteq> c2
         \<and> generate_id md5_hex [c1] now_str = generate_id md5_hex [c2] now_str)"
proof -
  have a: "length (generate_id md5_hex args now_str) \<le> 12"
    by (simp add: generate_id_unfold)
  have b: "\<forall>args'. concat args' = concat args \<longrightarrow>
         generate_id md5_hex args' now_str = generate_id md5_hex args now_str"
    by (simp add: generate_id_unfold)
  have c: "\<forall>now'. now' \<noteq> now_str \<longrightarrow> concat args @ now' \<noteq> concat args @ now_str"
    by simp
  have d: "\<forall>args'. concat args' \<noteq> concat args \<longrightarrow>
         concat args' @ now_str \<noteq> concat args @ now_str"
    by simp
  have e: "\<forall>args' now'.
         generate_id md5_hex args' now' \<noteq> generate_id md5_hex args now_str \<longrightarrow>
         concat args' @ now' \<noteq> concat args @ now_str"
    by (auto simp: generate_id_unfold)
  show ?thesis
    by (intro conjI [OF generate_id_unfold] conjI [OF a] conjI [OF b] conjI [OF c]
        conjI [OF d] conjI [OF e] generate_id_collision)
qed

theorem generate_id_salted_digest_prefix_witness:
  "\<forall>md5_hex.
     generate_id md5_hex [''ab'', ''c''] ''2024-05-01 09:30:00.000001''
       = generate_id md5_hex [''a'', ''bc''] ''2024-05-01 09:30:00.000001''
   \<and> concat [''ab'', ''c''] @ ''2024-05-01 09:30:00.000002''
       \<noteq> concat [''ab'', ''c''] @ ''2024-05-01 09:30:00.000001''
   \<and> concat [''ab'', ''d''] @ ''2024-05-01 09:30:00.000001''
       \<noteq> concat [''ab'', ''c''] @ ''2024-05-01 09:30:00.000001''"
proof (intro allI)
  fix md5_hex :: "string \<Rightarrow> string"
  note inst = generate_id_salted_digest_prefix
    [of md5_hex "[''ab'', ''c'']" "''2024-05-01 09:30:00.000001''"]
  from inst have "\<forall>args'. concat args' = concat [''ab'', ''c''] \<longrightarrow>
      generate_id md5_hex args' ''2024-05-01 09:30:00.000001''
        = generate_id md5_hex [''ab'', ''c''] ''2024-05-01 09:30:00.000001''"
    by (elim conjE)
  moreover have "concat [''a'', ''bc''] = concat [''ab'', ''c'']"
    by simp
  ultimately have same: "generate_id md5_hex [''a'', ''bc''] ''2024-05-01 09:30:00.000001''
        = generate_id md5_hex [''ab'', ''c''] ''2024-05-01 09:30:00.000001''"
    by blast
  from inst have "\<forall>now'. now' \<noteq> ''2024-05-01 09:30:00.000001'' \<longrightarrow>
      concat [''ab'', ''c''] @ now' \<noteq> concat [''ab'', ''c''] @ ''2024-05-01 09:30:00.000001''"
    by (elim conjE)
  moreover have "''2024-05-01 09:30:00.000002'' \<noteq> ''2024-05-01 09:30:00.000001''"
    by simp
  ultimately have time: "concat [''ab'', ''c''] @ ''2024-05-01 09:30:00.000002''
       \<noteq> concat [''ab'', ''c''] @ ''2024-05-01 09:30:00.000001''"
    by blast
  from inst have "\<forall>args'. concat args' \<noteq> concat [''ab'', ''c''] \<longrightarrow>
      concat args' @ ''2024-05-01 09:30:00.000001''
        \<noteq> concat [''ab'', ''c''] @ ''2024-05-01 09:30:00.000001''"
    by (elim conjE)
  moreover have "concat [''ab'', ''d''] \<noteq> concat [''ab'', ''c'']"
    by simp
  ultimately have content: "concat [''ab'', ''d''] @ ''2024-05-01 09:30:00.000001''
       \<noteq> concat [''ab'', ''c''] @ ''2024-05-01 09:30:00.000001''"
    by blast
  show "generate_id md5_hex [''ab'', ''c''] ''2024-05-01 09:30:00.000001''
       = generate_id md5_hex [''a'', ''bc''] ''2024-05-01 09:30:00.000001''
   \<and> concat [''ab'', ''c''] @ ''2024-05-01 09:30:00.000002''
       \<noteq> concat [''ab'', ''c''] @ ''2024-05-01 09:30:00.000001''
   \<and> concat [''ab'', ''d''] @ ''2024-05-01 09:30:00.000001''
       \<noteq> concat [''ab'', ''c''] @ ''2024-05-01 09:30:00.000001''"
    by (intro conjI same [symmetric] time content)
qed

lemma os_path_join_inject: "os_path_join dir a = os_path_join dir b \<longleftrightarrow> a = b"
  by (simp add: os_path_join_def)

lemma AuditLogger_paths_distinct:
  "access_log_file (AuditLogger dir) \<noteq> query_log_file (AuditLogger dir)"
  "alert_log_file (AuditLogger dir) \<noteq> query_log_file (AuditLogger dir)"
  "document_log_file (AuditLogger dir) \<noteq> query_log_file (AuditLogger dir)"
  by (simp_all add: AuditLogger_def os_path_join_inject)

lemma export_data_dates_only_recorded:
  "export_data loads self fs now_iso start_date end_date =
     (case export_data loads self fs now_iso None None of
        Inl e \<Rightarrow> Inl e
      | Inr doc \<Rightarrow>
          (case doc of
             JObj items \<Rightarrow>
               Inr (JObj (items[1 := (''date_range'',
                      JObj [(''start'', json_opt_str start_date),
                            (''end'', json_opt_str end_date)])]))
           | _ \<Rightarrow> Inr doc))"
  by (simp add: export_data_def split: sum.splits)

lemma plain_well_formed:
  assumes "CHR 0x22 \<notin> set s" and "CHR 0x5C \<notin> set s" and "newline \<notin> set s"
  shows "well_formed plain_dumps plain_loads (JStr s)"
proof -
  have q: "\<not> is_space (CHR 0x22)" "CHR 0x22 \<noteq> newline"
    by (simp_all add: is_space_def newline_def)
  have "plain_loads (CHR 0x22 # s @ [CHR 0x22]) = Some (JStr s)"
    using assms(1,2) by (simp add: plain_loads_def butlast_append)
  then show ?thesis
    using assms(3) q by (simp add: well_formed_def plain_dumps_def)
qed

text \<open>
  \<^bold>\<open>C7.\<close> \<^verbatim>\<open>export_audit_trail\<close> reads each partition with the default limit of
  \<^verbatim>\<open>_read_log\<close>. When more than 100 well-formed records have been appended to the query
  partition of a fresh logger, the partition read with a sufficient limit holds all of
  them, but the exported document holds only the last 100, whatever the dates and the
  output path given; the dates appear in the \<^verbatim>\<open>date_range\<close> entry only.
\<close>

theorem export_audit_trail_last_100:
  assumes "\<forall>op \<in> set ops. valid_op dumps loads op"
    and "100 < length (appended ops)"
  shows "(let self = AuditLogger dir;
              fs = foldl (apply_op dumps (query_log_file self)) Map.empty ops;
              out = (if output_file = None \<or> output_file = Some []
                     then os_path_join dir (''audit_export_'' @ now_stamp @ ''.json'')
                     else the output_file)
          in read_log loads fs (query_log_file self) None (int (length (appended ops)))
               = Inr (appended ops)
           \<and> export_audit_trail loads dump_indent self fs now_stamp now_iso start_date end_date
                output_file
               = Inr (out, fs(out \<mapsto> dump_indent (JObj
                   [(''export_timestamp'', JStr now_iso),
                    (''date_range'',
                       JObj [(''start'', json_opt_str start_date),
                             (''end'', json_opt_str end_date)]),
                    (''queries'', JArr (drop (length (appended ops) - 100) (appended ops))),
                    (''access_logs'', JArr []),
                    (''alerts'', JArr []),
                    (''documents'', JArr [])])))
           \<and> length (drop (length (appended ops) - 100) (appended ops)) = 100
           \<and> drop (length (appended ops) - 100) (appended ops) \<noteq> appended ops)"
proof -
  let ?self = "AuditLogger dir"
  let ?qf = "query_log_file ?self"
  let ?fs = "foldl (apply_op dumps ?qf) Map.empty ops"
  have empty: "Map.empty ?qf = None \<or> Map.empty ?qf = Some []"
    by simp
  have all: "read_log loads ?fs ?qf None (int (length (appended ops))) = Inr (appended ops)"
    using read_log_after_ops [of ops dumps loads Map.empty ?qf, OF assms(1) empty]
    by (simp add: py_slice_last_all)
  have q: "read_log loads ?fs ?qf None 100
             = Inr (drop (length (appended ops) - 100) (appended ops))"
    using read_log_after_ops [of ops dumps loads Map.empty ?qf 100, OF assms(1) empty]
    by (simp add: py_slice_last_drop)
  have others:
    "read_log loads ?fs (access_log_file ?self) None 100 = Inr []"
    "read_log loads ?fs (alert_log_file ?self) None 100 = Inr []"
    "read_log loads ?fs (document_log_file ?self) None 100 = Inr []"
    by (simp_all add: read_log_missing apply_ops_other AuditLogger_paths_distinct)
  have data: "export_data loads ?self ?fs now_iso start_date end_date
      = Inr (JObj
           [(''export_timestamp'', JStr now_iso),
            (''date_range'',
               JObj [(''start'', json_opt_str start_date), (''end'', json_opt_str end_date)]),
            (''queries'', JArr (drop (length (appended ops) - 100) (appended ops))),
            (''access_logs'', JArr []),
            (''alerts'', JArr []),
            (''documents'', JArr [])])"
    by (simp only: export_data_def q others sum.case)
  have dir: "log_dir ?self = dir"
    by (simp add: AuditLogger_def)
  have len: "length (drop (length (appended ops) - 100) (appended ops)) = 100"
    using assms(2) by simp
  then have less: "drop (length (appended ops) - 100) (appended ops) \<noteq> appended ops"
    using assms(2) by (metis less_irrefl)
  show ?thesis
    unfolding Let_def export_audit_trail_def data dir sum.case
    by (intro conjI all refl len less)
qed

theorem export_audit_trail_last_100_witness:
  "export_audit_trail plain_loads plain_dumps (AuditLogger ''./audit_logs'')
     (foldl (apply_op plain_dumps (query_log_file (AuditLogger ''./audit_logs''))) Map.empty
        (map (\<lambda>i. Append (JStr (replicate i CHR ''x''))) [0..<101]))
     ''20240501_093000'' ''2024-05-01T09:30:00.000001'' (Some ''2024-01-01'') None
     (Some ''export.json'')
   = Inr (''export.json'',
       (foldl (apply_op plain_dumps (query_log_file (AuditLogger ''./audit_logs''))) Map.empty
          (map (\<lambda>i. Append (JStr (replicate i CHR ''x''))) [0..<101]))
       (''export.json'' \<mapsto> plain_dumps (JObj
          [(''export_timestamp'', JStr ''2024-05-01T09:30:00.000001''),
           (''date_range'', JObj [(''start'', JStr ''2024-01-01''), (''end'', JNull)]),
           (''queries'', JArr (map (\<lambda>i. JStr (replicate i CHR ''x'')) [1..<101])),
           (''access_logs'', JArr []),
           (''alerts'', JArr []),
           (''documents'', JArr [])])))
   \<and> read_log plain_loads
       (foldl (apply_op plain_dumps (query_log_file (AuditLogger ''./audit_logs''))) Map.empty
          (map (\<lambda>i. Append (JStr (replicate i CHR ''x''))) [0..<101]))
       (query_log_file (AuditLogger ''./audit_logs'')) None 101
     = Inr (map (\<lambda>i. JStr (replicate i CHR ''x'')) [0..<101])"
proof -
  let ?ops = "map (\<lambda>i. Append (JStr (replicate i CHR ''x''))) [0..<101]"
  have valid: "\<forall>op \<in> set ?ops. valid_op plain_dumps plain_loads op"
    by (auto intro!: plain_well_formed simp: newline_def)
  have app: "appended ?ops = map (\<lambda>i. JStr (replicate i CHR ''x'')) [0..<101]"
    using appended_map_Append [of "map (\<lambda>i. JStr (replicate i CHR ''x'')) [0..<101]"]
    by (simp only: map_map comp_def)
  have many: "100 < length (appended ?ops)"
    by (simp add: app)
  have last: "drop (length (appended ?ops) - 100) (appended ?ops)
                = map (\<lambda>i. JStr (replicate i CHR ''x'')) [1..<101]"
    by (simp add: app drop_map)
  note inst = export_audit_trail_last_100
    [of ?ops plain_dumps plain_loads "''./audit_logs''" "Some ''export.json''"
        "''20240501_093000''" plain_dumps "''2024-05-01T09:30:00.000001''"
        "Some ''2024-01-01''" None, OF valid many, unfolded Let_def last]
  show ?thesis
    using inst by (simp add: app json_opt_str_def)
qed

section \<open>Compliance dashboard\<close>






lemma scenario_components:
  "weighted_coverage scenario_dashboard tc = Some (4 / 10 * 80)"
  "weighted_confidence scenario_dashboard = Some (3 / 10 * (9 / 10 * 100))"
  "weighted_inverse_risk scenario_dashboard = Some (3 / 10 * (100 - 20))"
  by code_simp+





lemma no_documents_result:
  "get_compliance_score no_documents_dashboard tc t =
     \<lparr> overall_score = 51, status = ''FAIR'', status_color = ''orange'',
       document_coverage = 27, query_confidence = 24, risk_management = 0,
       score_timestamp = t \<rparr>"
  by code_simp

lemma no_documents_components:
  "weighted_coverage no_documents_dashboard tc = None"
  "weighted_confidence no_documents_dashboard = Some 27"
  "weighted_inverse_risk no_documents_dashboard = Some 24"
  by code_simp+

lemma query_statistics_together:
  "avg_risk_score (get_query_statistics d) = None
     \<longleftrightarrow> avg_confidence_score (get_query_statistics d) = None"
  by (simp add: get_query_statistics_def Let_def split: option.splits)

lemma compliance_components_aligned:
  assumes "weighted_coverage d tc \<noteq> None \<or> weighted_confidence d = None"
  shows "document_coverage (get_compliance_score d tc t)
           = py_round (dict_get (weighted_coverage d tc) 0) 1
         \<and> query_confidence (get_compliance_score d tc t)
           = py_round (dict_get (weighted_confidence d) 0) 1
         \<and> risk_management (get_compliance_score d tc t)
           = py_round (dict_get (weighted_inverse_risk d) 0) 1"
proof -
  let ?cov = "get_document_coverage d tc"
  let ?qs = "get_query_statistics d"
  have fields:
    "document_coverage (get_compliance_score d tc t)
       = py_round (if length (score_components ?cov ?qs) > 0
                   then score_components ?cov ?qs ! 0 else 0) 1"
    "query_confidence (get_compliance_score d tc t)
       = py_round (if length (score_components ?cov ?qs) > 1
                   then score_components ?cov ?qs ! 1 else 0) 1"
    "risk_management (get_compliance_score d tc t)
       = py_round (if length (score_components ?cov ?qs) > 2
                   then score_components ?cov ?qs ! 2 else 0) 1"
    by (simp_all add: get_compliance_score_def Let_def case_prod_beta)
  show ?thesis
  proof (cases "weighted_coverage d tc")
    case None
    with assms have c: "avg_confidence_score ?qs = None"
      by (simp add: weighted_confidence_def)
    then have r: "avg_risk_score ?qs = None"
      by (simp add: query_statistics_together)
    from None have "score_components ?cov ?qs = []"
      by (simp add: score_components_def weighted_coverage_def c r Let_def
          split: option.splits if_splits)
    with None c r show ?thesis
      by (simp add: fields weighted_confidence_def weighted_inverse_risk_def dict_get_def)
  next
    case (Some w)
    show ?thesis
    proof (cases "avg_confidence_score ?qs")
      case None
      then have r: "avg_risk_score ?qs = None"
        by (simp add: query_statistics_together)
      from Some have "score_components ?cov ?qs = [w]"
        by (simp add: score_components_def weighted_coverage_def None r Let_def ac_simps
            split: option.splits if_splits)
      with Some None r show ?thesis
        by (simp add: fields weighted_confidence_def weighted_inverse_risk_def dict_get_def)
    next
      case (Some c)
      then obtain x where r: "avg_risk_score ?qs = Some x"
        using query_statistics_together [of d] by (cases "avg_risk_score ?qs") auto
      from \<open>weighted_coverage d tc = Some w\<close>
      have "score_components ?cov ?qs = [w, c * 100 * (3 / 10), (100 - x) * (3 / 10)]"
        by (simp add: score_components_def weighted_coverage_def Some r Let_def ac_simps
            split: option.splits if_splits)
      with \<open>weighted_coverage d tc = Some w\<close> Some r show ?thesis
        by (simp add: fields weighted_confidence_def weighted_inverse_risk_def dict_get_def
            ac_simps)
    qed
  qed
qed

text \<open>
  \<^bold>\<open>C8.\<close> \<^verbatim>\<open>get_compliance_score\<close> reads the three sub-scores from the list of
  components by position. When the coverage component is available, or when there are
  no query statistics, the values reported as \<^verbatim>\<open>document_coverage\<close>, \<^verbatim>\<open>query_confidence\<close>
  and \<^verbatim>\<open>risk_management\<close> are the weighted coverage, confidence and inverse-risk
  components, each rounded to one decimal and 0 when absent. With no document in the
  collection and one logged query of confidence 0.9 and risk score 20, the positions
  shift: the coverage component is not available, the weighted confidence component is
  27 and the weighted inverse-risk component is 24, but the code reports 27 as
  \<^verbatim>\<open>document_coverage\<close>, 24 as \<^verbatim>\<open>query_confidence\<close> and 0 as \<^verbatim>\<open>risk_management\<close>, with the
  overall score 51.
\<close>

theorem compliance_components_shift_without_coverage:
  "(weighted_coverage d tc \<noteq> None \<or> weighted_confidence d = None \<longrightarrow>
      document_coverage (get_compliance_score d tc t)
        = py_round (dict_get (weighted_coverage d tc) 0) 1
      \<and> query_confidence (get_compliance_score d tc t)
        = py_round (dict_get (weighted_confidence d) 0) 1
      \<and> risk_management (get_compliance_score d tc t)
        = py_round (dict_get (weighted_inverse_risk d) 0) 1)
   \<and> weighted_coverage no_documents_dashboard tc = None
   \<and> weighted_confidence no_documents_dashboard = Some 27
   \<and> weighted_inverse_risk no_documents_dashboard = Some 24
   \<and> document_coverage (get_compliance_score no_documents_dashboard tc t) = 27
   \<and> query_confidence (get_compliance_score no_documents_dashboard tc t) = 24
   \<and> risk_management (get_compliance_score no_documents_dashboard tc t) = 0
   \<and> overall_score (get_compliance_score no_documents_dashboard tc t) = 51"
proof -
  have aligned: "weighted_coverage d tc \<noteq> None \<or> weighted_confidence d = None \<longrightarrow>
      document_coverage (get_compliance_score d tc t)
        = py_round (dict_get (weighted_coverage d tc) 0) 1
      \<and> query_confidence (get_compliance_score d tc t)
        = py_round (dict_get (weighted_confidence d) 0) 1
      \<and> risk_management (get_compliance_score d tc t)
        = py_round (dict_get (weighted_inverse_risk d) 0) 1"
    by (intro impI compliance_components_aligned)
  have r: "document_coverage (get_compliance_score no_documents_dashboard tc t) = 27"
    "query_confidence (get_compliance_score no_documents_dashboard tc t) = 24"
    "risk_management (get_compliance_score no_documents_dashboard tc t) = 0"
    "overall_score (get_compliance_score no_documents_dashboard tc t) = 51"
    by (simp_all add: no_documents_result)
  show ?thesis
    by (intro conjI [OF aligned] conjI [OF no_documents_components(1)]
        conjI [OF no_documents_components(2)] conjI [OF no_documents_components(3)]
        conjI [OF r(1)] conjI [OF r(2)] conjI [OF r(3)] r(4))
qed

theorem compliance_components_shift_without_coverage_witness:
  "document_coverage (get_compliance_score scenario_dashboard ''2024-05-01T09:30:00''
      ''2024-05-01T09:30:01'') = py_round 32 1
   \<and> query_confidence (get_compliance_score scenario_dashboard ''2024-05-01T09:30:00''
      ''2024-05-01T09:30:01'') = py_round 27 1
   \<and> risk_management (get_compliance_score scenario_dashboard ''2024-05-01T09:30:00''
      ''2024-05-01T09:30:01'') = py_round 24 1
   \<and> document_coverage (get_compliance_score no_documents_dashboard ''2024-05-01T09:30:00''
      ''2024-05-01T09:30:01'') = 27
   \<and> weighted_coverage no_documents_dashboard ''2024-05-01T09:30:00'' = None"
proof -
  note inst = compliance_components_shift_without_coverage
    [of scenario_dashboard "''2024-05-01T09:30:00''" "''2024-05-01T09:30:01''"]
  have parts: "weighted_coverage scenario_dashboard ''2024-05-01T09:30:00'' = Some 32"
    "weighted_confidence scenario_dashboard = Some 27"
    "weighted_inverse_risk scenario_dashboard = Some 24"
    using scenario_components(1) [of "''2024-05-01T09:30:00''"] scenario_components(2,3)
    by simp_all
  have hyp: "weighted_coverage scenario_dashboard ''2024-05-01T09:30:00'' \<noteq> None
               \<or> weighted_confidence scenario_dashboard = None"
    by (simp add: parts)
  from inst have "weighted_coverage scenario_dashboard ''2024-05-01T09:30:00'' \<noteq> None
        \<or> weighted_confidence scenario_dashboard = None \<longrightarrow>
      document_coverage (get_compliance_score scenario_dashboard ''2024-05-01T09:30:00''
          ''2024-05-01T09:30:01'')
        = py_round (dict_get (weighted_coverage scenario_dashboard ''2024-05-01T09:30:00'') 0) 1
      \<and> query_confidence (get_compliance_score scenario_dashboard ''2024-05-01T09:30:00''
          ''2024-05-01T09:30:01'')
        = py_round (dict_get (weighted_confidence scenario_dashboard) 0) 1
      \<and> risk_management (get_compliance_score scenario_dashboard ''2024-05-01T09:30:00''
          ''2024-05-01T09:30:01'')
        = py_round (dict_get (weighted_inverse_risk scenario_dashboard) 0) 1"
    by (rule conjunct1)
  with hyp have a: "document_coverage (get_compliance_score scenario_dashboard
          ''2024-05-01T09:30:00'' ''2024-05-01T09:30:01'')
        = py_round (dict_get (weighted_coverage scenario_dashboard ''2024-05-01T09:30:00'') 0) 1
      \<and> query_confidence (get_compliance_score scenario_dashboard ''2024-05-01T09:30:00''
          ''2024-05-01T09:30:01'')
        = py_round (dict_get (weighted_confidence scenario_dashboard) 0) 1
      \<and> risk_management (get_compliance_score scenario_dashboard ''2024-05-01T09:30:00''
          ''2024-05-01T09:30:01'')
        = py_round (dict_get (weighted_inverse_risk scenario_dashboard) 0) 1"
    by (rule rev_mp)
  from inst have b: "document_coverage (get_compliance_score no_documents_dashboard
        ''2024-05-01T09:30:00'' ''2024-05-01T09:30:01'') = 27"
    by (elim conjE)
  from inst have c: "weighted_coverage no_documents_dashboard ''2024-05-01T09:30:00'' = None"
    by (elim conjE)
  show ?thesis
    using a b c by (simp only: parts dict_get_def option.case)
qed

end
